theory Spec2Isabelle
  imports Main
begin

section \<open>Python values and primitives used by ogg\_monitor.py\<close>

text \<open>
  The script is Python 2.7: \<open>str\<close> is a byte string, modelled as \<^typ>\<open>string\<close>.
  An exception is a value; \<open>sys.exit\<close> raises \<open>SystemExit\<close>, which the script's
  \<open>except Exception\<close> handlers do not catch, so it is kept apart from the exceptions.
\<close>

datatype pyexc = ValueError | IndexError | AttributeError | KeyError

datatype 'a result = Returned 'a | Raised pyexc | Exited nat

fun and_then :: "'a result \<Rightarrow> ('a \<Rightarrow> 'b result) \<Rightarrow> 'b result" where
  "and_then (Returned x) f = f x"
| "and_then (Raised e) f = Raised e"
| "and_then (Exited c) f = Exited c"

text \<open>\<open>xs[i]\<close> for an index that is never negative in this script.\<close>

definition nth_or_raise :: "'a list \<Rightarrow> nat \<Rightarrow> 'a result" where
  "nth_or_raise xs i = (if i < length xs then Returned (xs ! i) else Raised IndexError)"

text \<open>\<open>xs.index(x)\<close>: the first position of \<open>x\<close>, ValueError when there is none.\<close>

fun py_index :: "'a list \<Rightarrow> 'a \<Rightarrow> nat option" where
  "py_index [] x = None"
| "py_index (y # ys) x = (if y = x then Some 0 else map_option Suc (py_index ys x))"

definition index_or_raise :: "'a list \<Rightarrow> 'a \<Rightarrow> nat result" where
  "index_or_raise xs x = (case py_index xs x of None \<Rightarrow> Raised ValueError | Some i \<Rightarrow> Returned i)"

text \<open>\<open>s.split(c)\<close> for a one-character separator: empty fields are kept.\<close>

fun py_split :: "char \<Rightarrow> string \<Rightarrow> string list" where
  "py_split c [] = [[]]"
| "py_split c (x # xs) =
     (if x = c then [] # py_split c xs
      else (case py_split c xs of [] \<Rightarrow> [[x]] | w # ws \<Rightarrow> (x # w) # ws))"

text \<open>\<open>list(filter(None, line.split(' ')))\<close>: the non-empty fields.\<close>

definition tokens :: "string \<Rightarrow> string list" where
  "tokens line = filter (\<lambda>w. w \<noteq> []) (py_split (CHR '' '') line)"

fun starts_with :: "string \<Rightarrow> string \<Rightarrow> bool" where
  "starts_with s [] = True"
| "starts_with [] (p # ps) = False"
| "starts_with (x # xs) (p # ps) = (x = p \<and> starts_with xs ps)"

text \<open>\<open>s.find(sub)\<close> as an option, and \<open>sub in s\<close>.\<close>

fun find_at :: "string \<Rightarrow> string \<Rightarrow> nat option" where
  "find_at sub [] = (if sub = [] then Some 0 else None)"
| "find_at sub (x # xs) =
     (if starts_with (x # xs) sub then Some 0 else map_option Suc (find_at sub xs))"

definition py_find :: "string \<Rightarrow> string \<Rightarrow> int" where
  "py_find sub s = (case find_at sub s of None \<Rightarrow> - 1 | Some i \<Rightarrow> int i)"

definition py_in :: "string \<Rightarrow> string \<Rightarrow> bool" where
  "py_in sub s = (find_at sub s \<noteq> None)"

text \<open>\<open>s.rfind(c)\<close> for a one-character string: the last position, or -1.\<close>

definition py_rfind :: "char \<Rightarrow> string \<Rightarrow> int" where
  "py_rfind c s =
     (case find_at [c] (rev s) of None \<Rightarrow> - 1 | Some i \<Rightarrow> int (length s) - 1 - int i)"

text \<open>\<open>s[a:b]\<close>: a negative bound counts from the end, both are clipped to the string.\<close>

definition clip_index :: "nat \<Rightarrow> int \<Rightarrow> nat" where
  "clip_index n i = (if i < 0 then nat (max 0 (int n + i)) else min n (nat i))"

definition py_slice :: "'a list \<Rightarrow> int \<Rightarrow> int \<Rightarrow> 'a list" where
  "py_slice s a b =
     (let lo = clip_index (length s) a; hi = clip_index (length s) b
      in take (hi - lo) (drop lo s))"

text \<open>\<open>s.replace(c, '')\<close> for a one-character string.\<close>

definition py_remove :: "char \<Rightarrow> string \<Rightarrow> string" where
  "py_remove c s = filter (\<lambda>x. x \<noteq> c) s"

definition is_space :: "char \<Rightarrow> bool" where
  "is_space c = (c \<in> set [CHR '' '', CHR 0x09, CHR 0x0A, CHR 0x0B, CHR 0x0C, CHR 0x0D])"

definition py_strip :: "string \<Rightarrow> string" where
  "py_strip s = rev (dropWhile is_space (rev (dropWhile is_space s)))"

definition lower_letters :: string where
  "lower_letters = ''abcdefghijklmnopqrstuvwxyz''"

definition upper_letters :: string where
  "upper_letters = ''ABCDEFGHIJKLMNOPQRSTUVWXYZ''"

definition digit_chars :: string where
  "digit_chars = ''0123456789''"

text \<open>
  \<open>s.lower()\<close> and \<open>s.upper()\<close> on the ASCII letters. (Under a locale Python 2 may
  also map bytes above 127, to other bytes above 127; the phrases and host names of the
  script are ASCII.)
\<close>

definition py_lower :: "string \<Rightarrow> string" where
  "py_lower s =
     map (\<lambda>c. case map_of (zip upper_letters lower_letters) c of None \<Rightarrow> c | Some l \<Rightarrow> l) s"

definition py_upper :: "string \<Rightarrow> string" where
  "py_upper s =
     map (\<lambda>c. case map_of (zip lower_letters upper_letters) c of None \<Rightarrow> c | Some u \<Rightarrow> u) s"

definition is_digit :: "char \<Rightarrow> bool" where
  "is_digit c = (c \<in> set digit_chars)"

text \<open>The regular expression class \<open>\w\<close> (no LOCALE or UNICODE flag): letters, digits, underscore.\<close>

definition is_word :: "char \<Rightarrow> bool" where
  "is_word c = (c \<in> set lower_letters \<or> c \<in> set upper_letters \<or> is_digit c \<or> c = CHR ''_'')"

text \<open>\<open>re.search('\d', s)\<close>: the start of the first match, None when no digit occurs.\<close>

fun re_search_digit :: "string \<Rightarrow> nat option" where
  "re_search_digit [] = None"
| "re_search_digit (c # cs) = (if is_digit c then Some 0 else map_option Suc (re_search_digit cs))"

text \<open>\<open>re.sub('\W+', '', s)\<close>: every run of non-word characters is removed.\<close>

definition re_sub_nonword :: "string \<Rightarrow> string" where
  "re_sub_nonword s = filter is_word s"

text \<open>
  \<open>int(s)\<close> on a string: surrounding whitespace is dropped, one sign is allowed, the rest
  must be a non-empty run of decimal digits; anything else is a ValueError.
\<close>

definition digit_val :: "char \<Rightarrow> nat" where
  "digit_val c = of_char c - 48"

definition digits_val :: "string \<Rightarrow> nat" where
  "digits_val ds = foldl (\<lambda>a c. 10 * a + digit_val c) 0 ds"

definition all_digits :: "string \<Rightarrow> bool" where
  "all_digits ds = (ds \<noteq> [] \<and> list_all is_digit ds)"

definition py_int :: "string \<Rightarrow> int result" where
  "py_int s =
     (case py_strip s of
        [] \<Rightarrow> Raised ValueError
      | c # r \<Rightarrow>
          if c = CHR ''-'' then
            (if all_digits r then Returned (- int (digits_val r)) else Raised ValueError)
          else if c = CHR ''+'' then
            (if all_digits r then Returned (int (digits_val r)) else Raised ValueError)
          else if all_digits (c # r) then Returned (int (digits_val (c # r)))
          else Raised ValueError)"

text \<open>\<open>str(n)\<close> for an integer.\<close>

fun nat_digits :: "nat \<Rightarrow> string" where
  "nat_digits n =
     (if n < 10 then [digit_chars ! n] else nat_digits (n div 10) @ [digit_chars ! (n mod 10)])"

declare nat_digits.simps [simp del]

definition py_str :: "int \<Rightarrow> string" where
  "py_str i = (if i < 0 then CHR ''-'' # nat_digits (nat (- i)) else nat_digits (nat i))"

text \<open>
  A \<open>dict\<close> as an association list with one entry per key: assignment replaces the value
  of a key that is present and appends a new key. (Python 2 iterates a dict in hash
  order; the list's order stands for that order and no theorem below depends on it.)
\<close>

fun dict_set :: "('k \<times> 'v) list \<Rightarrow> 'k \<Rightarrow> 'v \<Rightarrow> ('k \<times> 'v) list" where
  "dict_set [] k v = [(k, v)]"
| "dict_set ((k', v') # d) k v =
     (if k' = k then (k, v) # d else (k', v') # dict_set d k v)"

section \<open>The monitor object\<close>

text \<open>The fields of \<open>OggZabbix\<close> that the parsing and sending methods read or write.\<close>

record ogg =
  ogg_script_outlist :: "string list"
  utc_string :: string
  ogg_architecture :: string
  use_hostname_for_zabbix :: string
  platform_type :: string
  short_hostname :: string
  sm_port :: string
  sm_security_enabled :: bool
  ogg_console :: string
  environment :: string
  ogg_version :: string
  ogg_database :: string
  ogg_total_memory :: int
  process_dictionary :: "(string \<times> string list) list"
  ogg_zabbix_list :: "string list"
  zbx_hostname :: string
  json_string :: string

section \<open>parse\_output\_getlag\_section\<close>

text \<open>
  One iteration of the loop over the window (source lines 694 to 716). The state is the
  last process name seen and the metric list; an exception leaves the list as it was,
  since every append is the last action of its branch.
\<close>

definition getlag_step ::
  "string list \<Rightarrow> string \<Rightarrow> nat \<Rightarrow> string \<times> string list \<Rightarrow> (string \<times> string list) result" where
  \<open>getlag_step outlist utc i st =
     and_then (nth_or_raise outlist i) (\<lambda>line.
     let splitted_line = tokens line; process_name = fst st; ogg_list = snd st in
     if py_in ''sending getlag request to'' (py_lower line) then
       and_then (nth_or_raise splitted_line 5) (\<lambda>process_name.
       case nth_or_raise outlist (i + 1) of
         Returned next_line \<Rightarrow>
           (let next_splitted_line = tokens next_line in
            if py_in ''Last record lag '' next_line then
              and_then (nth_or_raise next_splitted_line 3) (\<lambda>t.
              let process_lag = py_remove (CHR ''.'') (py_remove (CHR '','') t) in
              Returned (process_name,
                ogg_list @ [''ogg.process ['' @ process_name @ '',lag] '' @ utc @ '' "'' @ process_lag @ ''"'']))
            else if py_in ''No records yet processed'' next_line then
              Returned (process_name,
                ogg_list @ [''ogg.process['' @ process_name @ '',lag] '' @ utc @ '' "'' @ ''0'' @ ''"''])
            else Returned (process_name, ogg_list))
       | _ \<Rightarrow> Exited 1)
     else if py_find ''not currently running'' line > 0 then Returned (process_name, ogg_list)
     else if py_in ''Average Lag:'' line then
       and_then (nth_or_raise splitted_line 2) (\<lambda>t.
       let process_lag = py_remove (CHR ''.'') (py_remove (CHR '','') t) in
       Returned (process_name,
         ogg_list @ [''ogg.process['' @ process_name @ '',lag] '' @ utc @ '' "'' @ process_lag @ ''"'']))
     else Returned (process_name, ogg_list))\<close>

text \<open>
  The loop \<open>for i in range(parse_start, parse_end)\<close>: it stops at the first iteration
  that raises or exits and hands back the state reached so far with the reason.
\<close>

fun getlag_loop ::
  "string list \<Rightarrow> string \<Rightarrow> nat list \<Rightarrow> string \<times> string list
     \<Rightarrow> (string \<times> string list) \<times> unit result" where
  "getlag_loop outlist utc [] st = (st, Returned ())"
| "getlag_loop outlist utc (i # is) st =
     (case getlag_step outlist utc i st of
        Returned st' \<Rightarrow> getlag_loop outlist utc is st'
      | Raised e \<Rightarrow> (st, Raised e)
      | Exited c \<Rightarrow> (st, Exited c))"

text \<open>
  The method (source lines 680 to 734). An exception of the body is caught by
  \<open>except Exception\<close>, logged, and the method goes on to store the list; only
  \<open>sys.exit\<close> leaves it.
\<close>

definition parse_output_getlag_section :: "ogg \<Rightarrow> ogg result" where
  "parse_output_getlag_section self =
     (let outlist = ogg_script_outlist self; ogg_list = ogg_zabbix_list self in
      case py_index outlist ''==== GETLAG SECTION START ===='' of
        None \<Rightarrow> Returned (self\<lparr>ogg_zabbix_list := ogg_list\<rparr>)
      | Some parse_start \<Rightarrow>
          (case py_index outlist ''==== GETLAG SECTION END ===='' of
             None \<Rightarrow> Returned (self\<lparr>ogg_zabbix_list := ogg_list\<rparr>)
           | Some parse_end \<Rightarrow>
               if parse_end > parse_start then
                 (case getlag_loop outlist (utc_string self) [parse_start..<parse_end] ('''', ogg_list) of
                    (st, Exited c) \<Rightarrow> Exited c
                  | (st, _) \<Rightarrow> Returned (self\<lparr>ogg_zabbix_list := snd st\<rparr>))
               else Returned (self\<lparr>ogg_zabbix_list := ogg_list\<rparr>)))"

text \<open>
  A \<open>for\<close> loop whose body may raise: the first exception or exit ends it.
\<close>

fun for_each :: "('i \<Rightarrow> 's \<Rightarrow> 's result) \<Rightarrow> 'i list \<Rightarrow> 's \<Rightarrow> 's result" where
  "for_each body [] st = Returned st"
| "for_each body (i # is) st = and_then (body i st) (for_each body is)"

text \<open>A handler \<open>except Exception: ...; sys.exit(1)\<close> around a block.\<close>

fun exit_on_exception :: "'a result \<Rightarrow> 'a result" where
  "exit_on_exception (Raised e) = Exited 1"
| "exit_on_exception (Returned x) = Returned x"
| "exit_on_exception (Exited c) = Exited c"

section \<open>parse\_output\_get\_static\_settings\<close>



section \<open>parse\_output\_info\_section\<close>

text \<open>The local variables of the method (source lines 526 to 538).\<close>

record info_state =
  process_name :: string
  process_type :: string
  process_list :: "string list"
  status_dict :: "(string \<times> string) list"
  checkpoint_dict :: "(string \<times> string) list"
  process_dict :: "(string \<times> string list) list"
  process_trail :: string
  process_trail_type :: string
  process_seq :: string
  process_rba :: string
  process_scn :: string
  process_pid :: string

definition info_state_init :: "(string \<times> string list) list \<Rightarrow> info_state" where
  "info_state_init pd =
     \<lparr>process_name = '''', process_type = '''', process_list = [], status_dict = [],
      checkpoint_dict = [], process_dict = pd, process_trail = '''', process_trail_type = '''',
      process_seq = ''0'', process_rba = ''0'', process_scn = ''0'', process_pid = ''0''\<rparr>"

text \<open>Source lines 558 to 560: the token after \<open>Status\<close>.\<close>

definition rec_status :: "string list \<Rightarrow> info_state \<Rightarrow> info_state result" where
  "rec_status splitted_line st =
     and_then (index_or_raise splitted_line ''Status'') (\<lambda>k.
     and_then (nth_or_raise splitted_line (k + 1)) (\<lambda>status_name.
     Returned (if py_strip status_name \<noteq> ''''
               then st\<lparr>status_dict := dict_set (status_dict st) (process_name st) (py_strip status_name)\<rparr>
               else st)))"

text \<open>Source lines 562 and 563.\<close>

definition rec_process_id :: "string \<Rightarrow> string list \<Rightarrow> info_state \<Rightarrow> info_state result" where
  "rec_process_id line splitted_line st =
     (if py_in ''Process ID'' line
      then and_then (nth_or_raise splitted_line 2) (\<lambda>p. Returned (st\<lparr>process_pid := p\<rparr>))
      else Returned st)"

text \<open>Source lines 568 to 574: the trail of an EXTRACT, read from the next line.\<close>

definition rec_trail_name :: "string list \<Rightarrow> nat \<Rightarrow> string \<Rightarrow> info_state \<Rightarrow> info_state result" where
  "rec_trail_name outlist i line st =
     (if py_in ''Trail Name'' line then
        (if process_type st = ''EXTRACT'' then
           and_then (nth_or_raise outlist (i + 1)) (\<lambda>next_line.
           let trail_splitted_line = tokens next_line in
           and_then (nth_or_raise trail_splitted_line 0) (\<lambda>t0.
           and_then (nth_or_raise trail_splitted_line 1) (\<lambda>t1.
           and_then (nth_or_raise trail_splitted_line 2) (\<lambda>t2.
           and_then (nth_or_raise trail_splitted_line 4) (\<lambda>t4.
           Returned (st\<lparr>process_trail := t0, process_seq := t1, process_rba := t2,
                        process_trail_type := t4\<rparr>))))))
         else Returned st)
      else Returned st)"

text \<open>
  Source lines 576 to 587: the checkpoint file of a REPLICAT, and the SCN test nested
  under the same \<open>if\<close>.
\<close>

definition rec_checkpoint_file :: "string list \<Rightarrow> nat \<Rightarrow> string \<Rightarrow> info_state \<Rightarrow> info_state result" where
  "rec_checkpoint_file outlist i line st =
     (if py_in ''Log Read Checkpoint File'' line then
        and_then
          (if process_type st = ''REPLICAT'' then
             (let trail_splitted_line = tokens line;
                  st = st\<lparr>process_trail_type := ''LOCALTRAIL''\<rparr> in
              and_then (nth_or_raise trail_splitted_line 4) (\<lambda>p.
              let r = py_rfind (CHR ''/'') p + 1 in
              case re_search_digit (py_slice p r (int (length p))) of
                None \<Rightarrow> Raised AttributeError
              | Some start \<Rightarrow>
                  and_then (py_int (py_slice p (int start + r) (int (length p)))) (\<lambda>n.
                  and_then (nth_or_raise outlist (i + 1)) (\<lambda>next_line.
                  and_then (nth_or_raise (tokens next_line) 3) (\<lambda>rba.
                  Returned (st\<lparr>process_seq := py_str n, process_rba := rba,
                               process_trail := py_slice p 0 (r + int start)\<rparr>))))))
           else Returned st) (\<lambda>st.
        Returned (if py_in '' SCN '' line
                  then st\<lparr>process_scn := py_slice line (py_find ''('' line + 1) (py_find '')'' line)\<rparr>
                  else st))
      else Returned st)"

text \<open>Source lines 589 and 590.\<close>

definition rec_checkpoint_lag :: "string \<Rightarrow> string list \<Rightarrow> info_state \<Rightarrow> info_state result" where
  "rec_checkpoint_lag line splitted_line st =
     (if py_in ''Checkpoint Lag'' line then
        and_then (nth_or_raise splitted_line 2) (\<lambda>t.
        Returned (st\<lparr>checkpoint_dict :=
          dict_set (checkpoint_dict st) (process_name st)
            (py_remove (CHR ''.'') (py_remove (CHR '','') t))\<rparr>))
      else Returned st)"

text \<open>Source lines 592 and 593.\<close>

definition rec_store :: "info_state \<Rightarrow> info_state" where
  "rec_store st =
     (if process_name st \<noteq> '''' then
        st\<lparr>process_dict := dict_set (process_dict st) (process_name st)
              [process_trail st, process_trail_type st, process_seq st, process_rba st,
               process_scn st, process_pid st]\<rparr>
      else st)"

text \<open>
  One iteration of the detail loop (source lines 547 to 593). Everything from the reset
  of the trail variables to the store into \<open>process_dict\<close> is indented under the test of
  the first token, as in the source.
\<close>

definition detail_step :: "string list \<Rightarrow> nat \<Rightarrow> info_state \<Rightarrow> info_state result" where
  "detail_step outlist i st =
     and_then (nth_or_raise outlist i) (\<lambda>line.
     let splitted_line = tokens line in
     and_then (nth_or_raise splitted_line 0) (\<lambda>t0.
     if t0 \<in> set [''EXTRACT'', ''REPLICAT''] then
       and_then (nth_or_raise splitted_line 1) (\<lambda>t1.
       and_then (rec_status splitted_line
                  (st\<lparr>process_name := t1, process_type := t0,
                      process_list := process_list st @ [t1], process_trail := '''',
                      process_seq := ''0'', process_rba := ''0'', process_scn := ''0''\<rparr>)) (\<lambda>st.
       and_then (rec_process_id line splitted_line st) (\<lambda>st.
       and_then (rec_trail_name outlist i line st) (\<lambda>st.
       and_then (rec_checkpoint_file outlist i line st) (\<lambda>st.
       and_then (rec_checkpoint_lag line splitted_line st) (\<lambda>st.
       Returned (rec_store st)))))))
     else Returned st))"

text \<open>The body of the first \<open>try\<close> (source lines 541 to 593).\<close>

definition detail_pass :: "string list \<Rightarrow> info_state \<Rightarrow> info_state result" where
  "detail_pass outlist st =
     and_then (index_or_raise outlist ''==== INFO * SECTION START ===='') (\<lambda>parse_start.
     and_then (index_or_raise outlist ''==== INFO * SECTION END ===='') (\<lambda>parse_end.
     if parse_end > parse_start
     then for_each (detail_step outlist) [parse_start..<parse_end] st
     else Returned st))"

text \<open>One iteration of the summary loop (source lines 613 to 626).\<close>

definition summary_step :: "string list \<Rightarrow> nat \<Rightarrow> info_state \<Rightarrow> info_state result" where
  "summary_step outlist i st =
     and_then (nth_or_raise outlist i) (\<lambda>line.
     let splitted_line = tokens line in
     and_then (nth_or_raise splitted_line 0) (\<lambda>t0.
     if t0 \<in> set [''MANAGER'', ''ADMINSRV'', ''ADMINSRVR'', ''DISTSRVR'', ''PMSRVR'', ''RECVSRVR''] then
       (let st = st\<lparr>process_name := t0, process_list := process_list st @ [t0],
                    process_trail := ''NONE'', process_seq := ''0'', process_rba := ''0'',
                    process_trail_type := ''NONE'', process_scn := ''0'', process_pid := ''-1''\<rparr>;
            st = st\<lparr>process_dict := dict_set (process_dict st) (process_name st)
                    [process_trail st, process_trail_type st, process_seq st, process_rba st,
                     process_scn st, process_pid st]\<rparr> in
        and_then (nth_or_raise splitted_line 1) (\<lambda>t1.
        Returned (if py_strip t1 \<noteq> ''''
                  then st\<lparr>status_dict := dict_set (status_dict st) (process_name st) t1\<rparr>
                  else st)))
     else Returned st))"

text \<open>The body of the second \<open>try\<close> (source lines 608 to 626).\<close>

definition summary_pass :: "string list \<Rightarrow> info_state \<Rightarrow> info_state result" where
  "summary_pass outlist st =
     and_then (index_or_raise outlist ''==== INFO ALL SECTION START ===='') (\<lambda>parse_start.
     and_then (index_or_raise outlist ''==== INFO ALL SECTION END ===='') (\<lambda>parse_end.
     if parse_end > parse_start
     then for_each (summary_step outlist) [parse_start..<parse_end] st
     else Returned st))"

text \<open>The metric lines (source lines 631 to 657). These loops stand outside the handlers.\<close>

definition status_metric :: "string \<Rightarrow> string \<Rightarrow> string \<Rightarrow> string" where
  \<open>status_metric utc key v = ''ogg.process['' @ key @ '',status] '' @ utc @ '' "'' @ v @ ''"''\<close>

definition chkptlag_metric :: "string \<Rightarrow> string \<Rightarrow> string \<Rightarrow> string result" where
  \<open>chkptlag_metric utc key v =
     (let splitted_line = py_split (CHR '':'') v in
      and_then (nth_or_raise splitted_line 0) (\<lambda>a. and_then (py_int a) (\<lambda>h.
      and_then (nth_or_raise splitted_line 1) (\<lambda>b. and_then (py_int b) (\<lambda>m.
      and_then (nth_or_raise splitted_line 2) (\<lambda>c. and_then (py_int c) (\<lambda>s.
      Returned (''ogg.process['' @ key @ '',chkptlag] '' @ utc @ '' "''
                  @ py_str (h * 60 * 60 + m * 60 + s) @ ''"''))))))))\<close>

definition process_metrics :: "string \<Rightarrow> string \<Rightarrow> string list \<Rightarrow> string list result" where
  \<open>process_metrics utc key v =
     and_then (nth_or_raise v 0) (\<lambda>v0.
     and_then (nth_or_raise v 1) (\<lambda>v1.
     and_then (nth_or_raise v 2) (\<lambda>v2.
     and_then (nth_or_raise v 3) (\<lambda>v3.
     and_then (nth_or_raise v 4) (\<lambda>v4.
     Returned
       [''ogg.process['' @ key @ '',trail_name] '' @ utc @ '' "'' @ v0 @ ''"'',
        ''ogg.process['' @ key @ '',trail_type] '' @ utc @ '' "'' @ v1 @ ''"'',
        ''ogg.process['' @ key @ '',seq] '' @ utc @ '' "'' @ v2 @ ''"'',
        ''ogg.process['' @ key @ '',rba] '' @ utc @ '' "'' @ v3 @ ''"'',
        ''ogg.process['' @ key @ '',scn] '' @ utc @ '' "'' @ v4 @ ''"''])))))\<close>

definition info_metrics :: "string \<Rightarrow> info_state \<Rightarrow> string list \<Rightarrow> string list result" where
  "info_metrics utc st ogg_list =
     and_then
       (for_each (\<lambda>kv l. Returned (l @ [status_metric utc (fst kv) (snd kv)]))
          (status_dict st) ogg_list) (\<lambda>l.
     and_then
       (for_each (\<lambda>kv l. and_then (chkptlag_metric utc (fst kv) (snd kv)) (\<lambda>m. Returned (l @ [m])))
          (checkpoint_dict st) l) (\<lambda>l.
     for_each (\<lambda>kv l. and_then (process_metrics utc (fst kv) (snd kv)) (\<lambda>ms. Returned (l @ ms)))
       (process_dict st) l))"

text \<open>The discovery string (source lines 660 to 667).\<close>

fun json_items :: "string list \<Rightarrow> string" where
  \<open>json_items [] = ''''\<close>
| \<open>json_items [proc] = ''{"{#OGG_PROCESS}":"'' @ proc @ ''"}''\<close>
| \<open>json_items (proc # procs) = ''{"{#OGG_PROCESS}":"'' @ proc @ ''"}'' @ '', '' @ json_items procs\<close>

definition zbx_discovery_key :: string where
  "zbx_discovery_key = ''ogg.process.discovery''"

definition discovery_string :: "string \<Rightarrow> string list \<Rightarrow> string" where
  \<open>discovery_string utc procs =
     zbx_discovery_key @ '' '' @ utc @ '' {"data":[ '' @ json_items procs @ '']}''\<close>

text \<open>The method (source lines 521 to 678).\<close>

definition parse_output_info_section :: "ogg \<Rightarrow> ogg result" where
  "parse_output_info_section self =
     (let outlist = ogg_script_outlist self in
      and_then (exit_on_exception (detail_pass outlist (info_state_init (process_dictionary self)))) (\<lambda>st.
      and_then (exit_on_exception (summary_pass outlist st)) (\<lambda>st.
      and_then (info_metrics (utc_string self) st (ogg_zabbix_list self)) (\<lambda>ogg_list.
      Returned (self\<lparr>json_string := discovery_string (utc_string self) (process_list st),
                     process_dictionary := process_dict st,
                     ogg_zabbix_list := ogg_list\<rparr>)))))"

section \<open>parse\_output\_manager\_identify\<close>

text \<open>
  \<open>re.search('Process ID ([0-9]*)', line)\<close>: group 1 of the leftmost match, the digits
  that follow the first occurrence of the phrase; None when the phrase does not occur.
\<close>

definition re_search_process_id :: "string \<Rightarrow> string option" where
  "re_search_process_id line =
     (case find_at ''Process ID '' line of
        None \<Rightarrow> None
      | Some k \<Rightarrow> Some (takeWhile is_digit (drop (k + length ''Process ID '') line)))"

text \<open>
  The loop over the manager window (source lines 750 to 759), with its \<open>break\<close> at the first
  line that contains \<open>Manager is running\<close>. The state is \<open>port_number\<close> and the process table.
\<close>

fun manager_loop ::
  "string list \<Rightarrow> nat list \<Rightarrow> string \<times> (string \<times> string list) list
     \<Rightarrow> (string \<times> (string \<times> string list) list) result" where
  "manager_loop outlist [] st = Returned st"
| "manager_loop outlist (i # is) st =
     (case nth_or_raise outlist i of
        Returned line \<Rightarrow>
          (let splitted_line = tokens line in
           if splitted_line \<noteq> [] then
             (if py_find ''Manager is running'' line > - 1 then
                and_then (nth_or_raise splitted_line 5) (\<lambda>t.
                let port_number = py_slice t (py_rfind (CHR ''.'') t + 1) (py_rfind (CHR '','') t) in
                case re_search_process_id line of
                  None \<Rightarrow> Raised AttributeError
                | Some pid \<Rightarrow>
                    Returned (port_number,
                      dict_set (snd st) ''MANAGER'' [''NONE'', ''NONE'', ''0'', ''0'', ''0'', pid]))
              else manager_loop outlist is st)
           else manager_loop outlist is st)
      | Raised e \<Rightarrow> Raised e
      | Exited c \<Rightarrow> Exited c)"

text \<open>
  The scan of the classic branch (source lines 745 to 761). No handler surrounds it: the
  \<open>try\<close> is commented out in the source, so an exception leaves the method.
\<close>

definition manager_scan ::
  "string list \<Rightarrow> (string \<times> string list) list \<Rightarrow> (string \<times> (string \<times> string list) list) result" where
  "manager_scan outlist pd =
     and_then (index_or_raise outlist ''==== MANAGER SECTION START ===='') (\<lambda>parse_start.
     and_then (index_or_raise outlist ''==== MANAGER SECTION END ===='') (\<lambda>parse_end.
     if parse_end > parse_start
     then manager_loop outlist [parse_start..<parse_end] ('''', pd)
     else Returned ('''', pd)))"

definition hostname_form :: "ogg \<Rightarrow> string \<Rightarrow> string" where
  "hostname_form self port_number = ''OGG_'' @ py_upper (short_hostname self) @ ''_'' @ port_number"

text \<open>
  The method (source lines 736 to 807). \<open>lookup\<close> is what \<open>get_shell_output\<close> gives for
  the search of \<open>COMMENT OGG_INSTANCE_ID=\<close> in the manager's parameter file: the text it
  prints, or None when the command fails (the handler then exits).
\<close>

definition parse_output_manager_identify :: "string option \<Rightarrow> ogg \<Rightarrow> ogg result" where
  "parse_output_manager_identify lookup self =
     (if ogg_architecture self = ''classic'' then
        and_then (manager_scan (ogg_script_outlist self) (process_dictionary self)) (\<lambda>st.
        let port_number = fst st; self = self\<lparr>process_dictionary := snd st\<rparr> in
        if port_number = '''' then Exited 1
        else if use_hostname_for_zabbix self = ''NO'' then
          (case lookup of
             None \<Rightarrow> Exited 1
           | Some output \<Rightarrow>
               if output \<noteq> '''' then
                 Returned (self\<lparr>zbx_hostname := ''OGG_'' @ re_sub_nonword output @ ''_'' @ port_number\<rparr>)
               else Returned (self\<lparr>zbx_hostname := hostname_form self port_number\<rparr>))
        else Returned (self\<lparr>zbx_hostname := hostname_form self port_number\<rparr>))
      else if ogg_architecture self = ''microservices'' then
        Returned (self\<lparr>zbx_hostname := hostname_form self (sm_port self)\<rparr>)
      else Returned self)"

section \<open>processes\_memory: the PID list\<close>

text \<open>
  Source lines 812 to 817: the PIDs of the table joined with commas. The tuple of fake
  PIDs is \<open>('-l', '0')\<close> in the source, with the letter l.
\<close>

fun pid_string_loop :: "(string \<times> string list) list \<Rightarrow> string \<Rightarrow> string result" where
  "pid_string_loop [] pid_string = Returned pid_string"
| "pid_string_loop ((key, v) # d) pid_string =
     and_then (nth_or_raise v 5) (\<lambda>pid.
     pid_string_loop d
       (if pid \<notin> set [''-l'', ''0''] then pid_string @ '','' @ pid else pid_string))"

definition processes_memory_pid_string :: "ogg \<Rightarrow> string result" where
  "processes_memory_pid_string self =
     and_then (pid_string_loop (process_dictionary self) '''') (\<lambda>pid_string.
     Returned (py_slice pid_string 1 (int (length pid_string))))"

section \<open>processes\_memory\<close>









section \<open>send\_to\_zabbix: the lines handed to the sender\<close>



section \<open>The object at construction\<close>

text \<open>
  \<open>__init__\<close> (source lines 76 to 130), for the fields above; \<open>platform.system()\<close> and
  \<open>platform.node()\<close> are its inputs. The timestamp is set later by \<open>set_unix_timestamp\<close>.
\<close>

definition OggZabbix :: "string \<Rightarrow> string \<Rightarrow> ogg" where
  "OggZabbix system node =
     \<lparr>ogg_script_outlist = [], utc_string = '''', ogg_architecture = ''classic'',
      use_hostname_for_zabbix = ''YES'', platform_type = system,
      short_hostname = hd (py_split (CHR ''.'') node), sm_port = '''',
      sm_security_enabled = False, ogg_console = '''', environment = ''test'',
      ogg_version = '''', ogg_database = '''', ogg_total_memory = 0,
      process_dictionary = [], ogg_zabbix_list = [], zbx_hostname = '''', json_string = ''''\<rparr>"

section \<open>The stages of main\<close>



section \<open>prepare\_ogg\_script and the transcript it produces\<close>

definition newline :: string where
  "newline = [CHR 0x0A]"

text \<open>The two characters backslash and n, as the Python literal \<open>'\\n'\<close> leaves them in the script.\<close>

definition backslash_n :: string where
  "backslash_n = [CHR 0x5C, CHR ''n'']"

text \<open>The common console commands (source lines 425 to 437).\<close>

definition common_ogg_commands :: string where
  \<open>common_ogg_commands =
     ''shell printf "'' @ backslash_n @ ''==== INFO * SECTION START ===='' @ backslash_n @ ''"'' @ newline @
     ''info * detail'' @ newline @
     ''shell printf "'' @ backslash_n @ ''==== INFO * SECTION END ===='' @ backslash_n @ ''"'' @ newline @
     ''shell printf "'' @ backslash_n @ ''==== INFO ALL SECTION START ===='' @ backslash_n @ ''"'' @ newline @
     ''info all'' @ newline @
     ''shell printf "'' @ backslash_n @ ''==== INFO ALL SECTION END ===='' @ backslash_n @ ''"'' @ newline @
     ''shell printf "'' @ backslash_n @ ''==== GETLAG SECTION START ===='' @ backslash_n @ ''"'' @ newline @
     ''send * getlag'' @ newline @
     ''shell printf "'' @ backslash_n @ ''==== GETLAG SECTION END ===='' @ backslash_n @ ''"'' @ newline @
     ''shell printf "'' @ backslash_n @ ''==== MANAGER SECTION START ==='' @ backslash_n @ ''"'' @ newline @
     ''info mgr'' @ newline @
     ''shell printf "'' @ backslash_n @ ''==== MANAGER SECTION END ===='' @ backslash_n @ ''"'' @ newline @
     ''exit'' @ newline\<close>

text \<open>
  The method (source lines 407 to 445); \<open>nodename\<close> is \<open>os.uname()[1]\<close>. The result is the
  shell command: the console started with a here-document that ends at \<open>EOF\<close>.
\<close>

definition prepare_ogg_script :: "string \<Rightarrow> ogg \<Rightarrow> string" where
  "prepare_ogg_script nodename self =
     ogg_console self @ '' << EOF'' @ newline
     @ (if ogg_architecture self = ''microservices'' then
          ''connect '' @ (if sm_security_enabled self then ''https://'' else ''http://'')
          @ nodename @ '':'' @ sm_port self @ ''/ as oggmonitor password TQYt3u5@ !'' @ newline
        else '''')
     @ common_ogg_commands @ ''EOF''"

text \<open>
  The console is not part of the repository; what is assumed of it is the least that makes
  the markers appear. The lines of the here-document are its commands, read one by one.
  A command \<open>shell printf "TEXT"\<close> prints TEXT with each backslash-n as a line break; the
  reply to any other command is left open as \<open>reply\<close>, and so is the \<open>banner\<close> printed
  before the first command.
\<close>

definition heredoc_commands :: "string \<Rightarrow> string list" where
  "heredoc_commands script = takeWhile (\<lambda>l. l \<noteq> ''EOF'') (tl (py_split (CHR 0x0A) script))"

fun printf_text :: "string \<Rightarrow> string" where
  "printf_text (a # b # s) =
     (if a = CHR 0x5C \<and> b = CHR ''n'' then CHR 0x0A # printf_text s else a # printf_text (b # s))"
| "printf_text s = s"

definition console_reply :: "(string \<Rightarrow> string list) \<Rightarrow> string \<Rightarrow> string list" where
  \<open>console_reply reply cmd =
     (if starts_with cmd ''shell printf "'' \<and> starts_with (rev cmd) ''"'' \<and> length cmd > 14
      then py_split (CHR 0x0A) (printf_text (py_slice cmd 14 (- 1)))
      else reply cmd)\<close>

definition console_output :: "string list \<Rightarrow> (string \<Rightarrow> string list) \<Rightarrow> string \<Rightarrow> string list" where
  "console_output banner reply script =
     banner @ concat (map (console_reply reply) (heredoc_commands script))"

text \<open>
  \<open>get_ogg_script_output\<close> (source lines 475 and 476), given the lines of the output:
  the empty lines are dropped.
\<close>

definition get_ogg_script_output :: "string list \<Rightarrow> ogg \<Rightarrow> ogg" where
  "get_ogg_script_output output_lines self =
     self\<lparr>ogg_script_outlist := filter (\<lambda>l. l \<noteq> []) output_lines\<rparr>"

section \<open>Example reports\<close>

text \<open>
  A monitor object on host \<open>srv1\<close> after \<open>set_unix_timestamp\<close>, and reports in the layout
  the console prints: an opening line per process, then one line per property.
\<close>

definition monitor :: ogg where
  "monitor = (OggZabbix ''Linux'' ''srv1.example.org'')\<lparr>utc_string := ''1700000000''\<rparr>"

definition report_info :: "string list" where
  "report_info =
     [''==== INFO * SECTION START ===='',
      ''EXTRACT    EXT1      Last Started 2024-01-01 10:00   Status RUNNING'',
      ''Checkpoint Lag       00:01:30 (updated 00:00:05 ago)'',
      ''Process ID           4242'',
      ''REPLICAT   REP1      Last Started 2024-01-01 10:00   Status RUNNING'',
      ''Checkpoint Lag       00:00:00 (updated 00:00:05 ago)'',
      ''Process ID           4243'',
      ''Log Read Checkpoint File ./dirdat/rt000042'',
      ''                     2024-01-01 10:00:00.000000  RBA 1024'',
      ''==== INFO * SECTION END ===='',
      ''==== INFO ALL SECTION START ===='',
      ''ADMINSRVR   RUNNING'',
      ''==== INFO ALL SECTION END ===='']"

definition report_one_extract :: "string list" where
  "report_one_extract =
     [''==== INFO * SECTION START ===='',
      ''EXTRACT    EXT1      Last Started 2024-01-01 10:00   Status RUNNING'',
      ''Checkpoint Lag       00:01:30 (updated 00:00:05 ago)'',
      ''Process ID           4242'',
      ''==== INFO * SECTION END ===='']"

definition report_one_replicat :: "string list" where
  "report_one_replicat =
     [''==== INFO * SECTION START ===='',
      ''REPLICAT   REP1      Last Started 2024-01-01 10:00   Status RUNNING'',
      ''Log Read Checkpoint File ./dirdat/rt000042'',
      ''                     2024-01-01 10:00:00.000000  RBA 1024'',
      ''==== INFO * SECTION END ===='']"

definition report_daemon :: "string list" where
  "report_daemon =
     [''==== INFO * SECTION START ===='',
      ''==== INFO * SECTION END ===='',
      ''==== INFO ALL SECTION START ===='',
      ''ADMINSRVR   RUNNING'',
      ''==== INFO ALL SECTION END ===='']"

definition report_inverted :: "string list" where
  "report_inverted =
     [''==== INFO * SECTION END ===='',
      ''EXTRACT    EXT1      Last Started 2024-01-01 10:00   Status RUNNING'',
      ''==== INFO * SECTION START ===='',
      ''==== INFO ALL SECTION END ===='',
      ''MANAGER     RUNNING'',
      ''==== INFO ALL SECTION START ===='']"

definition report_no_end :: "string list" where
  "report_no_end =
     [''==== INFO * SECTION START ===='',
      ''==== INFO ALL SECTION START ===='',
      ''==== INFO ALL SECTION END ===='']"

definition report_getlag :: "string list" where
  "report_getlag =
     [''==== GETLAG SECTION START ===='',
      ''Sending GETLAG request to EXTRACT EXT1 ...'',
      ''Last record lag 5 seconds.'',
      ''Sending GETLAG request to EXTRACT EXT2 ...'',
      ''No records yet processed.'',
      ''==== GETLAG SECTION END ===='']"

definition report_getlag_cut :: "string list" where
  "report_getlag_cut =
     [''==== GETLAG SECTION START ===='',
      ''Sending GETLAG request to EXTRACT EXT2 ...'',
      ''No records yet processed.'',
      ''Sending GETLAG request to'',
      ''Sending GETLAG request to EXTRACT EXT3 ...'',
      ''No records yet processed.'',
      ''==== GETLAG SECTION END ===='']"




text \<open>
  A detail section whose opening lines themselves carry the phrase \<open>Checkpoint Lag\<close>, with
  the display as third token; the second display has a thousands separator.
\<close>

definition report_lag_on_opening_line :: "string list" where
  "report_lag_on_opening_line =
     [''==== INFO * SECTION START ===='',
      ''EXTRACT EXT1 00:01:30 Checkpoint Lag Status RUNNING'',
      ''REPLICAT REP1 1,000:01:30 Checkpoint Lag Status RUNNING'',
      ''==== INFO * SECTION END ===='',
      ''==== INFO ALL SECTION START ===='',
      ''==== INFO ALL SECTION END ====''] "

definition report_manager :: "string list" where
  "report_manager =
     [''==== MANAGER SECTION START ===='',
      ''Manager is running (IP port TCP:srv1.7809, Process ID 4000).'',
      ''==== MANAGER SECTION END ===='']"

definition console_banner :: "string list" where
  "console_banner =
     [''Oracle GoldenGate Command Interpreter for Oracle'',
      ''Version 19.1.0.0.4 OGGCORE_19.1.0.0.0_PLATFORMS_191017.1054_FBO'']"

definition console_echo :: "string \<Rightarrow> string list" where
  "console_echo cmd = [''GGSCI (srv1) > '' @ cmd]"

text \<open>
  A field of an \<open>HH:MM:SS\<close> display: the decimal digits of a number after any number of
  leading zeros.
\<close>

abbreviation display_field :: "nat \<Rightarrow> nat \<Rightarrow> string" where
  "display_field z n \<equiv> replicate z (CHR ''0'') @ py_str (int n)"

section \<open>Facts about the primitives\<close>

lemma and_then_Returned:
  "(and_then m f = Returned y) = (\<exists>x. m = Returned x \<and> f x = Returned y)"
  by (cases m) auto

lemma py_index_None: "(py_index xs x = None) = (x \<notin> set xs)"
  by (induction xs) auto

lemma py_index_Some: "py_index xs x = Some i \<Longrightarrow> i < length xs \<and> xs ! i = x"
  by (induction xs arbitrary: i) (auto split: if_splits)

lemma index_or_raise_absent: "x \<notin> set xs \<Longrightarrow> index_or_raise xs x = Raised ValueError"
  by (simp add: index_or_raise_def py_index_None [symmetric])

lemma index_or_raise_present: "py_index xs x = Some i \<Longrightarrow> index_or_raise xs x = Returned i"
  by (simp add: index_or_raise_def)

lemma py_split_not_Nil: "py_split c s \<noteq> []"
  by (induction s) (auto split: list.splits)

lemma py_split_no_sep: "c \<notin> set a \<Longrightarrow> py_split c a = [a]"
  by (induction a) auto

lemma py_split_first_field:
  "c \<notin> set a \<Longrightarrow> py_split c (a @ c # rest) = a # py_split c rest"
  by (induction a) (auto simp: py_split_not_Nil split: list.splits)

lemma is_digit_not_space: "is_digit c \<Longrightarrow> \<not> is_space c"
  by (auto simp: is_digit_def is_space_def digit_chars_def)

lemma is_digit_not_colon: "is_digit c \<Longrightarrow> c \<noteq> CHR '':''"
  by (auto simp: is_digit_def digit_chars_def)

lemma is_digit_not_sign: "is_digit c \<Longrightarrow> c \<noteq> CHR ''-'' \<and> c \<noteq> CHR ''+''"
  by (auto simp: is_digit_def digit_chars_def)

lemma digit_char_is_digit: "d < 10 \<Longrightarrow> is_digit (digit_chars ! d)"
  unfolding is_digit_def by (rule nth_mem) (simp add: digit_chars_def)

lemma digit_val_digit_char: "d < 10 \<Longrightarrow> digit_val (digit_chars ! d) = d"
proof -
  assume "d < 10"
  then have "d \<in> {0, 1, 2, 3, 4, 5, 6, 7, 8, 9}" by auto
  then show ?thesis by (auto simp: digit_val_def digit_chars_def)
qed

lemma nat_digits_not_Nil: "nat_digits n \<noteq> []"
  by (subst nat_digits.simps) simp

lemma nat_digits_all: "list_all is_digit (nat_digits n)"
proof (induction n rule: nat_digits.induct)
  case (1 n)
  show ?case
  proof (cases "n < 10")
    case True
    then show ?thesis by (subst nat_digits.simps) (simp add: digit_char_is_digit)
  next
    case False
    with 1 show ?thesis by (subst nat_digits.simps) (simp add: digit_char_is_digit)
  qed
qed

lemma digits_val_snoc: "digits_val (ds @ [c]) = 10 * digits_val ds + digit_val c"
  by (simp add: digits_val_def)

text \<open>Reading back what \<open>str\<close> prints gives the number: \<open>digits_val\<close> is the decimal value.\<close>

lemma digits_val_nat_digits: "digits_val (nat_digits n) = n"
proof (induction n rule: nat_digits.induct)
  case (1 n)
  show ?case
  proof (cases "n < 10")
    case True
    then show ?thesis
      by (subst nat_digits.simps) (simp add: digits_val_def digit_val_digit_char)
  next
    case False
    with 1 show ?thesis
      by (subst nat_digits.simps) (simp add: digits_val_snoc digit_val_digit_char)
  qed
qed

lemma foldl_zeros:
  "foldl (\<lambda>a c. 10 * a + digit_val c) 0 (replicate z (CHR ''0'')) = 0"
  by (induction z) (simp_all add: digit_val_def)

lemma digits_val_zeros: "digits_val (replicate z (CHR ''0'') @ ds) = digits_val ds"
  by (simp add: digits_val_def foldl_zeros)

lemma display_field_digits: "list_all is_digit (display_field z n)"
proof -
  have "is_digit (CHR ''0'')" by (simp add: is_digit_def digit_chars_def)
  then have "list_all is_digit (replicate z (CHR ''0''))" by (simp add: list_all_iff)
  then show ?thesis by (simp add: py_str_def nat_digits_all)
qed

lemma display_field_not_Nil: "display_field z n \<noteq> []"
  by (simp add: py_str_def nat_digits_not_Nil)

lemma strip_digits:
  assumes "list_all is_digit ds"
  shows "py_strip ds = ds"
proof -
  have a: "dropWhile is_space xs = xs" if "list_all is_digit xs" for xs
    using that by (cases xs) (auto simp: is_digit_not_space)
  from assms have "list_all is_digit (rev ds)" by (simp add: list_all_iff)
  with a [of ds] a [of "rev ds"] assms show ?thesis by (simp add: py_strip_def)
qed

lemma py_int_display_field: "py_int (display_field z n) = Returned (int n)"
proof -
  obtain c r where cr: "display_field z n = c # r"
    using display_field_not_Nil [of z n] by (cases "display_field z n") auto
  with display_field_digits [of z n] have "is_digit c" by simp
  then have "c \<noteq> CHR ''-''" "c \<noteq> CHR ''+''" using is_digit_not_sign by auto
  moreover have "all_digits (c # r)"
    using display_field_digits [of z n] cr by (simp add: all_digits_def)
  moreover have "digits_val (display_field z n) = n"
    by (simp add: py_str_def digits_val_zeros digits_val_nat_digits)
  then have "digits_val (c # r) = n" using cr by simp
  ultimately show ?thesis
    using strip_digits [OF display_field_digits [of z n]] cr by (simp add: py_int_def)
qed

lemma colon_not_in_display_field: "CHR '':'' \<notin> set (display_field z n)"
  using display_field_digits [of z n] is_digit_not_colon by (auto simp: list_all_iff)

lemma split_hms:
  "py_split (CHR '':'') (display_field zh h @ '':'' @ display_field zm m @ '':'' @ display_field zs s)
     = [display_field zh h, display_field zm m, display_field zs s]"
  using py_split_first_field [OF colon_not_in_display_field]
    py_split_no_sep [OF colon_not_in_display_field]
  by simp

section \<open>The lag section is best effort\<close>

lemma getlag_step_no_exit:
  assumes "Suc i < length outlist"
  shows "getlag_step outlist utc i st \<noteq> Exited c"
  using assms by (auto simp: getlag_step_def nth_or_raise_def Let_def)

lemma getlag_step_extends:
  assumes "getlag_step outlist utc i st = Returned st'"
  shows "\<exists>ms. snd st' = snd st @ ms"
  using assms
  by (auto simp: getlag_step_def nth_or_raise_def Let_def split: if_splits result.splits)

lemma getlag_loop_extends:
  assumes "list_all (\<lambda>i. Suc i < length outlist) js"
    and "getlag_loop outlist utc js st = (st', r)"
  shows "(\<forall>c. r \<noteq> Exited c) \<and> (\<exists>ms. snd st' = snd st @ ms)"
  using assms
proof (induction js arbitrary: st)
  case Nil
  then show ?case by auto
next
  case (Cons j js)
  show ?case
  proof (cases "getlag_step outlist utc j st")
    case (Returned s)
    with Cons.prems have "getlag_loop outlist utc js s = (st', r)" by simp
    with Cons.IH Cons.prems(1)
    have "(\<forall>c. r \<noteq> Exited c) \<and> (\<exists>ms. snd st' = snd s @ ms)" by simp
    moreover from getlag_step_extends [OF Returned] obtain ns where "snd s = snd st @ ns" ..
    ultimately show ?thesis by auto
  next
    case (Raised e)
    with Cons.prems show ?thesis by auto
  next
    case (Exited c)
    with Cons.prems(1) getlag_step_no_exit [of j outlist utc st c] show ?thesis by simp
  qed
qed

lemma getlag_loop_append:
  "getlag_loop outlist utc (js @ ks) st =
     (case getlag_loop outlist utc js st of
        (st', Returned u) \<Rightarrow> getlag_loop outlist utc ks st'
      | (st', r) \<Rightarrow> (st', r))"
  by (induction js arbitrary: st) (auto split: result.splits prod.splits)

text \<open>
  Every line the loop scans has a successor: the end marker stands at \<open>parse_end\<close>, inside
  the list. So the \<open>sys.exit\<close> of the inner handler is never reached.
\<close>

lemma window_in_range:
  assumes "py_index outlist m = Some pe"
  shows "list_all (\<lambda>i. Suc i < length outlist) [ps..<pe]"
  using py_index_Some [OF assms] by (auto simp: list_all_iff)

text \<open>
  Claim C5. For every report the method returns: no exception raised while a line of the
  \<open>send * getlag\<close> window is scanned ends the run, and the metric list it leaves is the
  list it was given followed by the lag metrics collected. When the scan of line \<open>k\<close>
  raises, the list is the one reached by the lines before \<open>k\<close>. A line with
  \<open>sending getlag request to\<close> that has no next line is never scanned, since the end
  marker follows every scanned line.
\<close>

theorem getlag_best_effort:
  "(\<exists>ms. parse_output_getlag_section self =
            Returned (self\<lparr>ogg_zabbix_list := ogg_zabbix_list self @ ms\<rparr>)) \<and>
   (\<forall>ps pe k st e.
      py_index (ogg_script_outlist self) ''==== GETLAG SECTION START ===='' = Some ps \<and>
      py_index (ogg_script_outlist self) ''==== GETLAG SECTION END ===='' = Some pe \<and>
      ps \<le> k \<and> k < pe \<and>
      getlag_loop (ogg_script_outlist self) (utc_string self) [ps..<k] ('''', ogg_zabbix_list self)
        = (st, Returned ()) \<and>
      getlag_step (ogg_script_outlist self) (utc_string self) k st = Raised e
      \<longrightarrow> parse_output_getlag_section self = Returned (self\<lparr>ogg_zabbix_list := snd st\<rparr>))"
proof (intro conjI allI impI)
  let ?out = "ogg_script_outlist self"
  show "\<exists>ms. parse_output_getlag_section self =
      Returned (self\<lparr>ogg_zabbix_list := ogg_zabbix_list self @ ms\<rparr>)"
  proof (cases "py_index ?out ''==== GETLAG SECTION START ====''")
    case None
    then have "parse_output_getlag_section self =
        Returned (self\<lparr>ogg_zabbix_list := ogg_zabbix_list self @ []\<rparr>)"
      by (simp add: parse_output_getlag_section_def)
    then show ?thesis ..
  next
    case (Some ps)
    note ps = this
    show ?thesis
    proof (cases "py_index ?out ''==== GETLAG SECTION END ====''")
      case None
      with ps have "parse_output_getlag_section self =
          Returned (self\<lparr>ogg_zabbix_list := ogg_zabbix_list self @ []\<rparr>)"
        by (simp add: parse_output_getlag_section_def)
      then show ?thesis ..
    next
      case (Some pe)
      note pe = this
      show ?thesis
      proof (cases "pe > ps")
        case False
        with ps pe have "parse_output_getlag_section self =
            Returned (self\<lparr>ogg_zabbix_list := ogg_zabbix_list self @ []\<rparr>)"
          by (simp add: parse_output_getlag_section_def)
        then show ?thesis ..
      next
        case True
        obtain st r where lp:
          "getlag_loop ?out (utc_string self) [ps..<pe] ('''', ogg_zabbix_list self) = (st, r)"
          by (cases "getlag_loop ?out (utc_string self) [ps..<pe] ('''', ogg_zabbix_list self)")
        from getlag_loop_extends [OF window_in_range [OF pe] lp]
        obtain ms where r: "\<forall>c. r \<noteq> Exited c" and ms: "snd st = ogg_zabbix_list self @ ms"
          by auto
        from ps pe True lp r
        have "parse_output_getlag_section self = Returned (self\<lparr>ogg_zabbix_list := snd st\<rparr>)"
          by (cases r) (simp_all add: parse_output_getlag_section_def)
        with ms show ?thesis by auto
      qed
    qed
  qed
next
  fix ps pe k st e
  let ?out = "ogg_script_outlist self"
  assume a: "py_index ?out ''==== GETLAG SECTION START ===='' = Some ps \<and>
      py_index ?out ''==== GETLAG SECTION END ===='' = Some pe \<and>
      ps \<le> k \<and> k < pe \<and>
      getlag_loop ?out (utc_string self) [ps..<k] ('''', ogg_zabbix_list self) = (st, Returned ()) \<and>
      getlag_step ?out (utc_string self) k st = Raised e"
  then have window: "[ps..<pe] = [ps..<k] @ k # [Suc k..<pe]"
    by (metis le_eq_less_or_eq less_imp_le_nat upt_add_eq_append upt_conv_Cons le_Suc_ex)
  from a have "getlag_loop ?out (utc_string self) [ps..<pe] ('''', ogg_zabbix_list self)
      = (st, Raised e)"
    unfolding window getlag_loop_append by simp
  with a show "parse_output_getlag_section self = Returned (self\<lparr>ogg_zabbix_list := snd st\<rparr>)"
    by (simp add: parse_output_getlag_section_def)
qed

text \<open>
  In \<open>report_getlag_cut\<close> the fourth line names no process: the scan raises IndexError
  there, the metric of EXT2 collected before it is kept, and the entry of EXT3 after it is
  never read.
\<close>

theorem getlag_best_effort_witness:
  \<open>parse_output_getlag_section (monitor\<lparr>ogg_script_outlist := report_getlag_cut\<rparr>) =
     Returned (monitor\<lparr>ogg_script_outlist := report_getlag_cut,
                      ogg_zabbix_list := [''ogg.process[EXT2,lag] 1700000000 "0"'']\<rparr>)\<close>
proof -
  let ?m = "monitor\<lparr>ogg_script_outlist := report_getlag_cut\<rparr>"
  let ?st = \<open>(''EXT2'', [''ogg.process[EXT2,lag] 1700000000 "0"''])\<close>
  have a: "py_index (ogg_script_outlist ?m) ''==== GETLAG SECTION START ===='' = Some 0"
    by (simp add: report_getlag_cut_def)
  have b: "py_index (ogg_script_outlist ?m) ''==== GETLAG SECTION END ===='' = Some 6"
    by (simp add: report_getlag_cut_def)
  have c: "getlag_loop (ogg_script_outlist ?m) (utc_string ?m) [0..<3] ('''', ogg_zabbix_list ?m)
             = (?st, Returned ())"
    by code_simp
  have d: "getlag_step (ogg_script_outlist ?m) (utc_string ?m) 3 ?st = Raised IndexError"
    by code_simp
  have k: "(0::nat) \<le> 3 \<and> (3::nat) < 6" by simp
  from getlag_best_effort [of ?m, THEN conjunct2, rule_format, of 0 6 3 ?st IndexError] a b c d k
  have "parse_output_getlag_section ?m = Returned (?m\<lparr>ogg_zabbix_list := snd ?st\<rparr>)"
    by blast
  then show ?thesis by simp
qed

section \<open>The checkpoint lag in seconds\<close>

lemma for_each_chkptlag:
  assumes "for_each (\<lambda>kv l. and_then (chkptlag_metric utc (fst kv) (snd kv)) (\<lambda>m. Returned (l @ [m])))
             d l0 = Returned l"
  shows "set l0 \<subseteq> set l \<and>
    list_all (\<lambda>kv. \<exists>m. chkptlag_metric utc (fst kv) (snd kv) = Returned m \<and> m \<in> set l) d"
  using assms
proof (induction d arbitrary: l0)
  case Nil
  then show ?case by simp
next
  case (Cons kv d)
  from Cons.prems obtain m where m: "chkptlag_metric utc (fst kv) (snd kv) = Returned m"
    by (cases "chkptlag_metric utc (fst kv) (snd kv)") auto
  with Cons.prems
  have "for_each (\<lambda>kv l. and_then (chkptlag_metric utc (fst kv) (snd kv)) (\<lambda>m. Returned (l @ [m])))
          d (l0 @ [m]) = Returned l"
    by simp
  from Cons.IH [OF this] m show ?case by auto
qed

lemma for_each_process_metrics:
  assumes "for_each (\<lambda>kv l. and_then (process_metrics utc (fst kv) (snd kv)) (\<lambda>ms. Returned (l @ ms)))
             d l0 = Returned l"
  shows "set l0 \<subseteq> set l"
  using assms
proof (induction d arbitrary: l0)
  case Nil
  then show ?case by simp
next
  case (Cons kv d)
  from Cons.prems obtain ms where ms: "process_metrics utc (fst kv) (snd kv) = Returned ms"
    by (cases "process_metrics utc (fst kv) (snd kv)") auto
  with Cons.prems
  have "for_each (\<lambda>kv l. and_then (process_metrics utc (fst kv) (snd kv)) (\<lambda>ms. Returned (l @ ms)))
          d (l0 @ ms) = Returned l"
    by simp
  from Cons.IH [OF this] show ?case by auto
qed

lemma info_metrics_chkptlag:
  assumes "info_metrics utc st ogg_list = Returned l"
    and "(key, v) \<in> set (checkpoint_dict st)"
    and "chkptlag_metric utc key v = Returned m"
  shows "m \<in> set l"
proof -
  from assms(1) obtain l1 l2 where
    l2: "for_each (\<lambda>kv l. and_then (chkptlag_metric utc (fst kv) (snd kv)) (\<lambda>m. Returned (l @ [m])))
           (checkpoint_dict st) l1 = Returned l2"
    and l: "for_each (\<lambda>kv l. and_then (process_metrics utc (fst kv) (snd kv)) (\<lambda>ms. Returned (l @ ms)))
           (process_dict st) l2 = Returned l"
    unfolding info_metrics_def and_then_Returned by blast
  from for_each_chkptlag [OF l2] assms(2,3) have "m \<in> set l2"
    by (fastforce simp: list_all_iff)
  with for_each_process_metrics [OF l] show ?thesis by auto
qed

lemma chkptlag_metric_display:
  \<open>chkptlag_metric utc key
       (display_field zh h @ '':'' @ display_field zm m @ '':'' @ display_field zs s) =
     Returned (''ogg.process['' @ key @ '',chkptlag] '' @ utc @ '' "''
       @ py_str (int h * 3600 + int m * 60 + int s) @ ''"'')\<close>
  unfolding chkptlag_metric_def split_hms
  by (simp add: nth_or_raise_def py_int_display_field mult.commute)

section \<open>Where a checkpoint lag is recorded\<close>

lemma map_of_dict_set_same: "map_of (dict_set d k v) k = Some v"
  by (induction d) auto

lemma map_of_dict_set_other: "k' \<noteq> k \<Longrightarrow> map_of (dict_set d k v) k' = map_of d k'"
  by (induction d) auto

lemma for_each_append:
  "for_each body (xs @ ys) st = and_then (for_each body xs st) (for_each body ys)"
proof (induction xs arbitrary: st)
  case Nil
  show ?case by simp
next
  case (Cons x xs)
  then show ?case by (cases "body x st") simp_all
qed

lemma exit_on_exception_Returned:
  "(exit_on_exception r = Returned x) = (r = Returned x)"
  by (cases r) auto

lemma rec_status_frame:
  assumes "rec_status sl st = Returned st'"
  shows "checkpoint_dict st' = checkpoint_dict st \<and> process_name st' = process_name st"
  using assms by (auto simp: rec_status_def and_then_Returned split: if_splits)

lemma rec_process_id_frame:
  assumes "rec_process_id line sl st = Returned st'"
  shows "checkpoint_dict st' = checkpoint_dict st \<and> process_name st' = process_name st"
  using assms by (auto simp: rec_process_id_def and_then_Returned split: if_splits)

lemma rec_trail_name_frame:
  assumes "rec_trail_name outlist i line st = Returned st'"
  shows "checkpoint_dict st' = checkpoint_dict st \<and> process_name st' = process_name st"
  using assms by (auto simp: rec_trail_name_def and_then_Returned Let_def split: if_splits)

lemma rec_checkpoint_file_frame:
  assumes "rec_checkpoint_file outlist i line st = Returned st'"
  shows "checkpoint_dict st' = checkpoint_dict st \<and> process_name st' = process_name st"
  using assms
  by (auto simp: rec_checkpoint_file_def and_then_Returned Let_def split: if_splits option.splits)

lemma rec_store_frame: "checkpoint_dict (rec_store st) = checkpoint_dict st"
  by (simp add: rec_store_def)

lemma rec_checkpoint_lag_effect:
  assumes "rec_checkpoint_lag line sl st = Returned st'"
  shows "(py_in ''Checkpoint Lag'' line \<and>
           (\<exists>t. nth_or_raise sl 2 = Returned t \<and>
              checkpoint_dict st' =
                dict_set (checkpoint_dict st) (process_name st)
                  (py_remove (CHR ''.'') (py_remove (CHR '','') t))))
       \<or> (\<not> py_in ''Checkpoint Lag'' line \<and> st' = st)"
  using assms by (auto simp: rec_checkpoint_lag_def and_then_Returned split: if_splits)

lemma detail_step_in_range:
  assumes "detail_step outlist i st = Returned st'"
  shows "nth_or_raise outlist i = Returned (outlist ! i)"
  using assms by (auto simp: detail_step_def nth_or_raise_def split: if_splits)

text \<open>
  An opening line: the state that reaches the \<open>Checkpoint Lag\<close> test has the second token
  as process name and the recorded lags of before; nothing after the test changes them.
\<close>

lemma detail_step_opening:
  assumes step: "detail_step outlist i st = Returned st'"
    and line: "tokens (outlist ! i) = t0 # t1 # ts"
    and first: "t0 \<in> set [''EXTRACT'', ''REPLICAT'']"
  shows "\<exists>s4 s5. process_name s4 = t1 \<and> checkpoint_dict s4 = checkpoint_dict st
      \<and> rec_checkpoint_lag (outlist ! i) (tokens (outlist ! i)) s4 = Returned s5
      \<and> checkpoint_dict st' = checkpoint_dict s5"
proof -
  let ?line = "outlist ! i"
  let ?sl = "tokens ?line"
  let ?s0 = "st\<lparr>process_name := t1, process_type := t0,
      process_list := process_list st @ [t1], process_trail := '''',
      process_seq := ''0'', process_rba := ''0'', process_scn := ''0''\<rparr>"
  from step first line obtain s1 s2 s3 s4 s5 where
    s1: "rec_status ?sl ?s0 = Returned s1"
    and s2: "rec_process_id ?line ?sl s1 = Returned s2"
    and s3: "rec_trail_name outlist i ?line s2 = Returned s3"
    and s4: "rec_checkpoint_file outlist i ?line s3 = Returned s4"
    and s5: "rec_checkpoint_lag ?line ?sl s4 = Returned s5"
    and st': "st' = rec_store s5"
    unfolding detail_step_def detail_step_in_range [OF step]
    by (auto simp: nth_or_raise_def and_then_Returned Let_def)
  from rec_status_frame [OF s1] rec_process_id_frame [OF s2] rec_trail_name_frame [OF s3]
    rec_checkpoint_file_frame [OF s4]
  have "process_name s4 = t1" and "checkpoint_dict s4 = checkpoint_dict st" by simp_all
  with s5 st' show ?thesis by (auto simp: rec_store_frame)
qed

lemma strip_separators:
  "py_remove (CHR ''.'') (py_remove (CHR '','') t) =
     filter (\<lambda>c. c \<noteq> CHR '','' \<and> c \<noteq> CHR ''.'') t"
  by (simp add: py_remove_def)

lemma detail_step_records:
  assumes step: "detail_step outlist i st = Returned st'"
    and line: "tokens (outlist ! i) = t0 # name # t2 # rest"
    and first: "t0 \<in> set [''EXTRACT'', ''REPLICAT'']"
    and phrase: "py_in ''Checkpoint Lag'' (outlist ! i)"
  shows "map_of (checkpoint_dict st') name =
     Some (filter (\<lambda>c. c \<noteq> CHR '','' \<and> c \<noteq> CHR ''.'') t2)"
proof -
  from detail_step_opening [OF step line first] obtain s4 s5 where
    "process_name s4 = name" "checkpoint_dict s4 = checkpoint_dict st"
    "rec_checkpoint_lag (outlist ! i) (tokens (outlist ! i)) s4 = Returned s5"
    "checkpoint_dict st' = checkpoint_dict s5"
    by blast
  with rec_checkpoint_lag_effect [of "outlist ! i" "tokens (outlist ! i)" s4 s5] phrase line
  show ?thesis
    by (auto simp: nth_or_raise_def map_of_dict_set_same strip_separators)
qed

lemma detail_step_keeps:
  assumes step: "detail_step outlist i st = Returned st'"
    and other: "nth_or_raise (tokens (outlist ! i)) 1 \<noteq> Returned name"
  shows "map_of (checkpoint_dict st') name = map_of (checkpoint_dict st) name"
proof (cases "tokens (outlist ! i)")
  case Nil
  with step show ?thesis
    unfolding detail_step_def detail_step_in_range [OF step]
    by (simp add: nth_or_raise_def)
next
  case (Cons t0 ts0)
  show ?thesis
  proof (cases "t0 \<in> set [''EXTRACT'', ''REPLICAT'']")
    case False
    with step Cons have "st' = st"
      unfolding detail_step_def detail_step_in_range [OF step]
      by (simp add: nth_or_raise_def)
    then show ?thesis by simp
  next
    case True
    show ?thesis
    proof (cases ts0)
      case Nil
      with step Cons True show ?thesis
        unfolding detail_step_def detail_step_in_range [OF step]
        by (simp add: nth_or_raise_def)
    next
      case (Cons t1 ts)
      with \<open>tokens (outlist ! i) = t0 # ts0\<close>
      have line: "tokens (outlist ! i) = t0 # t1 # ts" by simp
      with other have ne: "t1 \<noteq> name" by (simp add: nth_or_raise_def)
      from detail_step_opening [OF step line True] obtain s4 s5 where
        "process_name s4 = t1" "checkpoint_dict s4 = checkpoint_dict st"
        "rec_checkpoint_lag (outlist ! i) (tokens (outlist ! i)) s4 = Returned s5"
        "checkpoint_dict st' = checkpoint_dict s5"
        by blast
      with rec_checkpoint_lag_effect [of "outlist ! i" "tokens (outlist ! i)" s4 s5] ne
      show ?thesis by (auto simp: map_of_dict_set_other)
    qed
  qed
qed

lemma detail_loop_keeps:
  assumes "for_each (detail_step outlist) js st = Returned st'"
    and "list_all (\<lambda>j. nth_or_raise (tokens (outlist ! j)) 1 \<noteq> Returned name) js"
  shows "map_of (checkpoint_dict st') name = map_of (checkpoint_dict st) name"
  using assms
proof (induction js arbitrary: st)
  case Nil
  then show ?case by simp
next
  case (Cons j js)
  from Cons.prems(1) obtain s where s: "detail_step outlist j st = Returned s"
    and rest: "for_each (detail_step outlist) js s = Returned st'"
    by (auto simp: and_then_Returned)
  from Cons.IH [OF rest] Cons.prems(2) detail_step_keeps [OF s, of name]
  show ?case by simp
qed

lemma summary_step_frame:
  assumes "summary_step outlist i st = Returned st'"
  shows "checkpoint_dict st' = checkpoint_dict st"
  using assms
  by (auto simp: summary_step_def and_then_Returned Let_def split: if_splits)

lemma summary_loop_frame:
  assumes "for_each (summary_step outlist) js st = Returned st'"
  shows "checkpoint_dict st' = checkpoint_dict st"
  using assms
proof (induction js arbitrary: st)
  case Nil
  then show ?case by simp
next
  case (Cons j js)
  then show ?case by (auto simp: and_then_Returned dest: summary_step_frame)
qed

lemma summary_pass_frame:
  assumes "summary_pass outlist st = Returned st'"
  shows "checkpoint_dict st' = checkpoint_dict st"
  using assms
  by (auto simp: summary_pass_def and_then_Returned dest: summary_loop_frame split: if_splits)

text \<open>The detail pass records the lag of the last line of the window that names the process.\<close>

lemma detail_pass_records:
  assumes pass: "detail_pass outlist st = Returned st'"
    and ps: "py_index outlist ''==== INFO * SECTION START ===='' = Some ps"
    and pe: "py_index outlist ''==== INFO * SECTION END ===='' = Some pe"
    and i: "ps \<le> i" "i < pe"
    and line: "tokens (outlist ! i) = t0 # name # t2 # rest"
    and first: "t0 \<in> set [''EXTRACT'', ''REPLICAT'']"
    and phrase: "py_in ''Checkpoint Lag'' (outlist ! i)"
    and last: "list_all (\<lambda>j. nth_or_raise (tokens (outlist ! j)) 1 \<noteq> Returned name) [Suc i..<pe]"
  shows "map_of (checkpoint_dict st') name =
     Some (filter (\<lambda>c. c \<noteq> CHR '','' \<and> c \<noteq> CHR ''.'') t2)"
proof -
  from i have window: "[ps..<pe] = [ps..<i] @ i # [Suc i..<pe]"
    by (metis le_eq_less_or_eq less_imp_le_nat upt_add_eq_append upt_conv_Cons le_Suc_ex)
  from pass ps pe i have "for_each (detail_step outlist) [ps..<pe] st = Returned st'"
    by (simp add: detail_pass_def index_or_raise_present)
  then obtain s1 s2 where
    s2: "detail_step outlist i s1 = Returned s2"
    and rest: "for_each (detail_step outlist) [Suc i..<pe] s2 = Returned st'"
    unfolding window for_each_append by (auto simp: and_then_Returned)
  from detail_loop_keeps [OF rest last] detail_step_records [OF s2 line first phrase]
  show ?thesis by simp
qed

text \<open>
  Claim C7. A display \<open>HH:MM:SS\<close> of the numbers \<open>h\<close>, \<open>m\<close> and \<open>s\<close> (each field in
  decimal, with any number of leading zeros) gives the metric value
  \<open>h * 3600 + m * 60 + s\<close>, printed as an integer. And from the report to the metric list:
  when the method returns, and a line of the detail window is recognised for a process
  (first token \<open>EXTRACT\<close> or \<open>REPLICAT\<close>, the process name second, the phrase
  \<open>Checkpoint Lag\<close> in the line), its third token without commas and full stops is such a
  display, and no later line of the window has the process name as second token, then the
  metric list holds the \<open>chkptlag\<close> line of the process with that value.
\<close>

theorem chkptlag_seconds:
  \<open>chkptlag_metric utc key
       (display_field zh h @ '':'' @ display_field zm m @ '':'' @ display_field zs s) =
     Returned (''ogg.process['' @ key @ '',chkptlag] '' @ utc @ '' "''
       @ py_str (int h * 3600 + int m * 60 + int s) @ ''"'')
   \<and> (\<forall>self self' ps pe i t0 t2 rest.
         parse_output_info_section self = Returned self'
       \<and> py_index (ogg_script_outlist self) ''==== INFO * SECTION START ===='' = Some ps
       \<and> py_index (ogg_script_outlist self) ''==== INFO * SECTION END ===='' = Some pe
       \<and> ps \<le> i \<and> i < pe
       \<and> tokens (ogg_script_outlist self ! i) = t0 # key # t2 # rest
       \<and> t0 \<in> set [''EXTRACT'', ''REPLICAT'']
       \<and> py_in ''Checkpoint Lag'' (ogg_script_outlist self ! i)
       \<and> filter (\<lambda>c. c \<noteq> CHR '','' \<and> c \<noteq> CHR ''.'') t2 =
           display_field zh h @ '':'' @ display_field zm m @ '':'' @ display_field zs s
       \<and> list_all (\<lambda>j. nth_or_raise (tokens (ogg_script_outlist self ! j)) 1 \<noteq> Returned key)
           [Suc i..<pe]
       \<longrightarrow> ''ogg.process['' @ key @ '',chkptlag] '' @ utc_string self @ '' "''
             @ py_str (int h * 3600 + int m * 60 + int s) @ ''"'' \<in> set (ogg_zabbix_list self'))\<close>
proof (intro conjI allI impI)
  show \<open>chkptlag_metric utc key
       (display_field zh h @ '':'' @ display_field zm m @ '':'' @ display_field zs s) =
     Returned (''ogg.process['' @ key @ '',chkptlag] '' @ utc @ '' "''
       @ py_str (int h * 3600 + int m * 60 + int s) @ ''"'')\<close>
    by (rule chkptlag_metric_display)
next
  fix self self' :: ogg and ps pe i :: nat and t0 t2 :: string and rest :: "string list"
  let ?out = "ogg_script_outlist self"
  let ?d = "display_field zh h @ '':'' @ display_field zm m @ '':'' @ display_field zs s"
  assume a: "parse_output_info_section self = Returned self'
       \<and> py_index ?out ''==== INFO * SECTION START ===='' = Some ps
       \<and> py_index ?out ''==== INFO * SECTION END ===='' = Some pe
       \<and> ps \<le> i \<and> i < pe
       \<and> tokens (?out ! i) = t0 # key # t2 # rest
       \<and> t0 \<in> set [''EXTRACT'', ''REPLICAT'']
       \<and> py_in ''Checkpoint Lag'' (?out ! i)
       \<and> filter (\<lambda>c. c \<noteq> CHR '','' \<and> c \<noteq> CHR ''.'') t2 = ?d
       \<and> list_all (\<lambda>j. nth_or_raise (tokens (?out ! j)) 1 \<noteq> Returned key) [Suc i..<pe]"
  then obtain st1 st2 l where
    st1: "detail_pass ?out (info_state_init (process_dictionary self)) = Returned st1"
    and st2: "summary_pass ?out st1 = Returned st2"
    and l: "info_metrics (utc_string self) st2 (ogg_zabbix_list self) = Returned l"
    and self': "ogg_zabbix_list self' = l"
    unfolding parse_output_info_section_def Let_def
    by (auto simp: and_then_Returned exit_on_exception_Returned)
  from a have "map_of (checkpoint_dict st1) key = Some ?d"
    using detail_pass_records [OF st1, of ps pe i t0 key t2 rest] by simp
  with summary_pass_frame [OF st2] have "(key, ?d) \<in> set (checkpoint_dict st2)"
    by (simp add: map_of_SomeD)
  from info_metrics_chkptlag [OF l this chkptlag_metric_display] self'
  show \<open>''ogg.process['' @ key @ '',chkptlag] '' @ utc_string self @ '' "''
      @ py_str (int h * 3600 + int m * 60 + int s) @ ''"'' \<in> set (ogg_zabbix_list self')\<close>
    by simp
qed

text \<open>
  In \<open>report_lag_on_opening_line\<close> the display \<open>00:01:30\<close> of EXT1 gives 90, and the display
  \<open>1,000:01:30\<close> of REP1, read without its separator, gives 3600090.
\<close>

lemma report_lag_on_opening_line_returns:
  "\<exists>self'. parse_output_info_section (monitor\<lparr>ogg_script_outlist := report_lag_on_opening_line\<rparr>)
       = Returned self'"
proof -
  let ?m = "monitor\<lparr>ogg_script_outlist := report_lag_on_opening_line\<rparr>"
  let ?st = "\<lparr>process_name = ''REP1'', process_type = ''REPLICAT'',
       process_list = [''EXT1'', ''REP1''],
       status_dict = [(''EXT1'', ''RUNNING''), (''REP1'', ''RUNNING'')],
       checkpoint_dict = [(''EXT1'', ''00:01:30''), (''REP1'', ''1000:01:30'')],
       process_dict = [(''EXT1'', ['''', '''', ''0'', ''0'', ''0'', ''0'']),
                       (''REP1'', ['''', '''', ''0'', ''0'', ''0'', ''0''])],
       process_trail = '''', process_trail_type = '''', process_seq = ''0'',
       process_rba = ''0'', process_scn = ''0'', process_pid = ''0''\<rparr>"
  have d: "detail_pass (ogg_script_outlist ?m) (info_state_init (process_dictionary ?m)) = Returned ?st"
    by code_simp
  have s: "summary_pass (ogg_script_outlist ?m) ?st = Returned ?st"
    by code_simp
  have v1: "display_field 1 0 @ '':'' @ display_field 1 1 @ '':'' @ display_field 0 30 = ''00:01:30''"
    by code_simp
  have v2: "display_field 0 1000 @ '':'' @ display_field 1 1 @ '':'' @ display_field 0 30 = ''1000:01:30''"
    by code_simp
  from chkptlag_metric_display [of "utc_string ?m" "''EXT1''" 1 0 1 1 0 30]
  have c1: "\<exists>x. chkptlag_metric (utc_string ?m) ''EXT1'' ''00:01:30'' = Returned x"
    unfolding v1 by blast
  from chkptlag_metric_display [of "utc_string ?m" "''REP1''" 0 1000 1 1 0 30]
  have c2: "\<exists>x. chkptlag_metric (utc_string ?m) ''REP1'' ''1000:01:30'' = Returned x"
    unfolding v2 by blast
  from c1 c2 have "\<exists>l. info_metrics (utc_string ?m) ?st (ogg_zabbix_list ?m) = Returned l"
    by (auto simp: info_metrics_def process_metrics_def nth_or_raise_def)
  with d s show ?thesis
    by (auto simp: parse_output_info_section_def Let_def)
qed

theorem chkptlag_seconds_witness:
  \<open>\<exists>self'. parse_output_info_section (monitor\<lparr>ogg_script_outlist := report_lag_on_opening_line\<rparr>)
       = Returned self'
     \<and> ''ogg.process[EXT1,chkptlag] 1700000000 "90"'' \<in> set (ogg_zabbix_list self')
     \<and> ''ogg.process[REP1,chkptlag] 1700000000 "3600090"'' \<in> set (ogg_zabbix_list self')\<close>
proof -
  let ?m = "monitor\<lparr>ogg_script_outlist := report_lag_on_opening_line\<rparr>"
  from report_lag_on_opening_line_returns
  obtain self' where r: "parse_output_info_section ?m = Returned self'" ..
  have utc: "utc_string ?m = ''1700000000''" by (simp add: monitor_def)
  have ps: "py_index (ogg_script_outlist ?m) ''==== INFO * SECTION START ===='' = Some 0"
    by code_simp
  have pe: "py_index (ogg_script_outlist ?m) ''==== INFO * SECTION END ===='' = Some 3"
    by code_simp
  have e1: "tokens (ogg_script_outlist ?m ! 1) =
      ''EXTRACT'' # ''EXT1'' # ''00:01:30'' # [''Checkpoint'', ''Lag'', ''Status'', ''RUNNING'']"
    by code_simp
  have e2: "''EXTRACT'' \<in> set [''EXTRACT'', ''REPLICAT'']" by simp
  have e3: "py_in ''Checkpoint Lag'' (ogg_script_outlist ?m ! 1)" by code_simp
  have e4: "filter (\<lambda>c. c \<noteq> CHR '','' \<and> c \<noteq> CHR ''.'') ''00:01:30'' =
      display_field 1 0 @ '':'' @ display_field 1 1 @ '':'' @ display_field 0 30"
    by code_simp
  have e5: "list_all (\<lambda>j. nth_or_raise (tokens (ogg_script_outlist ?m ! j)) 1 \<noteq> Returned ''EXT1'')
      [Suc 1..<3]"
    by code_simp
  have e6: "py_str (int 0 * 3600 + int 1 * 60 + int 30) = ''90''" by code_simp
  have k1: "(0::nat) \<le> 1 \<and> (1::nat) < 3" by simp
  have ext1: \<open>''ogg.process['' @ ''EXT1'' @ '',chkptlag] '' @ utc_string ?m @ '' "''
      @ py_str (int 0 * 3600 + int 1 * 60 + int 30) @ ''"'' \<in> set (ogg_zabbix_list self')\<close>
    by (rule chkptlag_seconds [of _ "''EXT1''" 1 0 1 1 0 30, THEN conjunct2, rule_format,
          of ?m self' 0 3 1 "''EXTRACT''" "''00:01:30''"
            "[''Checkpoint'', ''Lag'', ''Status'', ''RUNNING'']"])
      (intro conjI r ps pe e1 e2 e3 e4 e5 k1 [THEN conjunct1] k1 [THEN conjunct2])
  have f1: "tokens (ogg_script_outlist ?m ! 2) =
      ''REPLICAT'' # ''REP1'' # ''1,000:01:30'' # [''Checkpoint'', ''Lag'', ''Status'', ''RUNNING'']"
    by code_simp
  have f2: "''REPLICAT'' \<in> set [''EXTRACT'', ''REPLICAT'']" by simp
  have f3: "py_in ''Checkpoint Lag'' (ogg_script_outlist ?m ! 2)" by code_simp
  have f4: "filter (\<lambda>c. c \<noteq> CHR '','' \<and> c \<noteq> CHR ''.'') ''1,000:01:30'' =
      display_field 0 1000 @ '':'' @ display_field 1 1 @ '':'' @ display_field 0 30"
    by code_simp
  have f5: "list_all (\<lambda>j. nth_or_raise (tokens (ogg_script_outlist ?m ! j)) 1 \<noteq> Returned ''REP1'')
      [Suc 2..<3]"
    by code_simp
  have f6: "py_str (int 1000 * 3600 + int 1 * 60 + int 30) = ''3600090''"
    by (simp add: py_str_def nat_digits.simps digit_chars_def)
  have k2: "(0::nat) \<le> 2 \<and> (2::nat) < 3" by simp
  have rep1: \<open>''ogg.process['' @ ''REP1'' @ '',chkptlag] '' @ utc_string ?m @ '' "''
      @ py_str (int 1000 * 3600 + int 1 * 60 + int 30) @ ''"'' \<in> set (ogg_zabbix_list self')\<close>
    by (rule chkptlag_seconds [of _ "''REP1''" 0 1000 1 1 0 30, THEN conjunct2, rule_format,
          of ?m self' 0 3 2 "''REPLICAT''" "''1,000:01:30''"
            "[''Checkpoint'', ''Lag'', ''Status'', ''RUNNING'']"])
      (intro conjI r ps pe f1 f2 f3 f4 f5 k2 [THEN conjunct1] k2 [THEN conjunct2])
  from ext1 rep1 show ?thesis unfolding e6 f6 utc using r by simp
qed

section \<open>The host identifier from the instance tag\<close>

text \<open>
  Claim C8. In the classic architecture, when the host name is not to be used
  (\<open>use_hostname_for_zabbix\<close> is \<open>NO\<close>) and the scan of the manager window gave a port
  \<open>P\<close> that is not empty: a lookup that prints a non-empty \<open>V\<close> gives the identifier
  \<open>OGG_\<close>, then the word characters of \<open>V\<close>, then \<open>_P\<close>; a lookup that prints nothing
  gives \<open>OGG_\<close>, the short host name in upper case, \<open>_P\<close>.
\<close>

theorem instance_tag_host_identifier:
  assumes "ogg_architecture self = ''classic''"
    and "use_hostname_for_zabbix self = ''NO''"
    and "manager_scan (ogg_script_outlist self) (process_dictionary self) = Returned (P, pd)"
    and "P \<noteq> ''''"
  shows "(V \<noteq> '''' \<longrightarrow>
            parse_output_manager_identify (Some V) self =
              Returned (self\<lparr>process_dictionary := pd,
                             zbx_hostname := ''OGG_'' @ filter is_word V @ ''_'' @ P\<rparr>))
       \<and> parse_output_manager_identify (Some '''') self =
              Returned (self\<lparr>process_dictionary := pd,
                             zbx_hostname := ''OGG_'' @ py_upper (short_hostname self) @ ''_'' @ P\<rparr>)"
  using assms
  by (simp add: parse_output_manager_identify_def hostname_form_def re_sub_nonword_def Let_def)

lemma report_manager_scan:
  "manager_scan report_manager [] =
     Returned (''7809'', [(''MANAGER'', [''NONE'', ''NONE'', ''0'', ''0'', ''0'', ''4000''])])"
  by code_simp

text \<open>The lookup value \<open>My Replication!\<close> on port 7809, and the empty lookup on host \<open>srv1\<close>.\<close>

theorem instance_tag_host_identifier_witness:
  "parse_output_manager_identify (Some ''My Replication!'')
      (monitor\<lparr>ogg_script_outlist := report_manager, use_hostname_for_zabbix := ''NO''\<rparr>) =
     Returned (monitor\<lparr>ogg_script_outlist := report_manager, use_hostname_for_zabbix := ''NO'',
                 process_dictionary := [(''MANAGER'', [''NONE'', ''NONE'', ''0'', ''0'', ''0'', ''4000''])],
                 zbx_hostname := ''OGG_MyReplication_7809''\<rparr>)
   \<and> parse_output_manager_identify (Some '''')
      (monitor\<lparr>ogg_script_outlist := report_manager, use_hostname_for_zabbix := ''NO''\<rparr>) =
     Returned (monitor\<lparr>ogg_script_outlist := report_manager, use_hostname_for_zabbix := ''NO'',
                 process_dictionary := [(''MANAGER'', [''NONE'', ''NONE'', ''0'', ''0'', ''0'', ''4000''])],
                 zbx_hostname := ''OGG_SRV1_7809''\<rparr>)"
proof -
  let ?m = "monitor\<lparr>ogg_script_outlist := report_manager, use_hostname_for_zabbix := ''NO''\<rparr>"
  have a: "ogg_architecture ?m = ''classic''" by (simp add: monitor_def OggZabbix_def)
  have b: "use_hostname_for_zabbix ?m = ''NO''" by simp
  have c: "manager_scan (ogg_script_outlist ?m) (process_dictionary ?m) =
      Returned (''7809'', [(''MANAGER'', [''NONE'', ''NONE'', ''0'', ''0'', ''0'', ''4000''])])"
    using report_manager_scan by (simp add: monitor_def OggZabbix_def)
  have d: "''7809'' \<noteq> ''''" by simp
  have w: "filter is_word ''My Replication!'' = ''MyReplication''" by code_simp
  have h: "py_upper (short_hostname ?m) = ''SRV1''"
    by (simp add: monitor_def OggZabbix_def py_upper_def lower_letters_def upper_letters_def)
  from instance_tag_host_identifier [OF a b c d, of "''My Replication!''"] w h
  show ?thesis by simp
qed

section \<open>The manager marker of the script and of the parser\<close>

lemma heredoc_commands_classic:
  assumes "ogg_architecture self = ''classic''" and "CHR 0x0A \<notin> set (ogg_console self)"
  shows \<open>heredoc_commands (prepare_ogg_script nodename self) =
     [''shell printf "'' @ backslash_n @ ''==== INFO * SECTION START ===='' @ backslash_n @ ''"'',
      ''info * detail'',
      ''shell printf "'' @ backslash_n @ ''==== INFO * SECTION END ===='' @ backslash_n @ ''"'',
      ''shell printf "'' @ backslash_n @ ''==== INFO ALL SECTION START ===='' @ backslash_n @ ''"'',
      ''info all'',
      ''shell printf "'' @ backslash_n @ ''==== INFO ALL SECTION END ===='' @ backslash_n @ ''"'',
      ''shell printf "'' @ backslash_n @ ''==== GETLAG SECTION START ===='' @ backslash_n @ ''"'',
      ''send * getlag'',
      ''shell printf "'' @ backslash_n @ ''==== GETLAG SECTION END ===='' @ backslash_n @ ''"'',
      ''shell printf "'' @ backslash_n @ ''==== MANAGER SECTION START ==='' @ backslash_n @ ''"'',
      ''info mgr'',
      ''shell printf "'' @ backslash_n @ ''==== MANAGER SECTION END ===='' @ backslash_n @ ''"'',
      ''exit'']\<close>
proof -
  have nl: "CHR 0x0A \<notin> set (ogg_console self @ '' << EOF'')" using assms(2) by simp
  have "prepare_ogg_script nodename self =
      (ogg_console self @ '' << EOF'') @ CHR 0x0A # (common_ogg_commands @ ''EOF'')"
    using assms(1) by (simp add: prepare_ogg_script_def newline_def)
  then have "tl (py_split (CHR 0x0A) (prepare_ogg_script nodename self)) =
      py_split (CHR 0x0A) (common_ogg_commands @ ''EOF'')"
    using py_split_first_field [OF nl] by simp
  then show ?thesis
    unfolding heredoc_commands_def
    by (simp add: common_ogg_commands_def newline_def backslash_n_def)
qed

lemma console_output_classic:
  assumes "ogg_architecture self = ''classic''" and "CHR 0x0A \<notin> set (ogg_console self)"
  shows "filter (\<lambda>l. l \<noteq> []) (console_output banner reply (prepare_ogg_script nodename self)) =
     filter (\<lambda>l. l \<noteq> [])
       (banner @ [''==== INFO * SECTION START ====''] 
        @ reply ''info * detail''
        @ [''==== INFO * SECTION END ===='', ''==== INFO ALL SECTION START ====''] 
        @ reply ''info all''
        @ [''==== INFO ALL SECTION END ===='', ''==== GETLAG SECTION START ====''] 
        @ reply ''send * getlag''
        @ [''==== GETLAG SECTION END ===='', ''==== MANAGER SECTION START ===''] 
        @ reply ''info mgr''
        @ [''==== MANAGER SECTION END ====''] 
        @ reply ''exit'')"
  unfolding console_output_def heredoc_commands_classic [OF assms]
  by (simp add: console_reply_def backslash_n_def py_slice_def clip_index_def)

text \<open>
  Claim C10. Take any transcript the classic script produces: the console is started by a
  command without line break, and neither its banner nor its reply to any command holds
  a line equal to the marker with four trailing equals signs. Then the transcript holds
  the manager start marker with three trailing equals signs, as the script prints it, and
  not the one with four that the parser looks up; the lookup raises ValueError, nothing in
  the method catches it, and the method ends with that exception before the loop that
  extracts the port.
\<close>

theorem own_transcript_breaks_manager_lookup:
  assumes "ogg_architecture self = ''classic''"
    and "CHR 0x0A \<notin> set (ogg_console self)"
    and "''==== MANAGER SECTION START ===='' \<notin> set banner"
    and "\<forall>cmd. ''==== MANAGER SECTION START ===='' \<notin> set (reply cmd)"
    and "ogg_script_outlist self' =
           ogg_script_outlist
             (get_ogg_script_output
                (console_output banner reply (prepare_ogg_script nodename self)) self)"
    and "ogg_architecture self' = ''classic''"
  shows "''==== MANAGER SECTION START ==='' \<in> set (ogg_script_outlist self')
     \<and> ''==== MANAGER SECTION START ===='' \<notin> set (ogg_script_outlist self')
     \<and> manager_scan (ogg_script_outlist self') (process_dictionary self') = Raised ValueError
     \<and> parse_output_manager_identify lookup self' = Raised ValueError"
proof -
  have out: "ogg_script_outlist self' =
      filter (\<lambda>l. l \<noteq> []) (console_output banner reply (prepare_ogg_script nodename self))"
    using assms(5) by (simp add: get_ogg_script_output_def)
  note shape = console_output_classic [OF assms(1,2), of banner reply nodename]
  have three: "''==== MANAGER SECTION START ==='' \<in> set (ogg_script_outlist self')"
    unfolding out shape by simp
  have four: "''==== MANAGER SECTION START ===='' \<notin> set (ogg_script_outlist self')"
    unfolding out shape using assms(3,4) by simp
  have scan: "manager_scan (ogg_script_outlist self') (process_dictionary self') = Raised ValueError"
    unfolding manager_scan_def using index_or_raise_absent [OF four] by simp
  have "parse_output_manager_identify lookup self' = Raised ValueError"
    unfolding parse_output_manager_identify_def using assms(6) scan by simp
  with three four scan show ?thesis by simp
qed

text \<open>A console that prints a banner and echoes each command.\<close>

theorem own_transcript_breaks_manager_lookup_witness:
  "parse_output_manager_identify None
     (get_ogg_script_output
        (console_output console_banner console_echo
           (prepare_ogg_script ''srv1'' (monitor\<lparr>ogg_console := ''/ogg/ggsci''\<rparr>)))
        (monitor\<lparr>ogg_console := ''/ogg/ggsci''\<rparr>)) = Raised ValueError"
proof -
  let ?m = "monitor\<lparr>ogg_console := ''/ogg/ggsci''\<rparr>"
  have a: "ogg_architecture ?m = ''classic''" by (simp add: monitor_def OggZabbix_def)
  have b: "CHR 0x0A \<notin> set (ogg_console ?m)" by simp
  have c: "''==== MANAGER SECTION START ===='' \<notin> set console_banner"
    by (simp add: console_banner_def)
  have d: "\<forall>cmd. ''==== MANAGER SECTION START ===='' \<notin> set (console_echo cmd)"
    by (simp add: console_echo_def)
  have e: "ogg_architecture (get_ogg_script_output
        (console_output console_banner console_echo (prepare_ogg_script ''srv1'' ?m)) ?m) = ''classic''"
    using a by (simp add: get_ogg_script_output_def)
  from own_transcript_breaks_manager_lookup [OF a b c d refl e, of "None"]
  show ?thesis by simp
qed

section \<open>The windows of the info sections\<close>

lemma nth_or_raise_not_Exited: "nth_or_raise xs i \<noteq> Exited c"
  by (simp add: nth_or_raise_def)

lemma index_or_raise_not_Exited: "index_or_raise xs x \<noteq> Exited c"
  by (simp add: index_or_raise_def split: option.splits)

lemma py_int_not_Exited: "py_int s \<noteq> Exited c"
  by (simp add: py_int_def split: list.splits)

lemma and_then_Exited:
  "(and_then m f = Exited c) = (m = Exited c \<or> (\<exists>x. m = Returned x \<and> f x = Exited c))"
  by (cases m) auto

lemma for_each_not_Exited:
  assumes "\<And>i st. body i st \<noteq> Exited c"
  shows "for_each body js st \<noteq> Exited c"
proof (induction js arbitrary: st)
  case Nil
  show ?case by simp
next
  case (Cons j js)
  show ?case using assms Cons by (cases "body j st") auto
qed

lemmas not_Exited =
  and_then_Exited nth_or_raise_not_Exited index_or_raise_not_Exited py_int_not_Exited

lemma rec_status_not_Exited: "rec_status sl st \<noteq> Exited c"
  by (simp add: rec_status_def not_Exited)

lemma rec_process_id_not_Exited: "rec_process_id line sl st \<noteq> Exited c"
  by (simp add: rec_process_id_def not_Exited)

lemma rec_trail_name_not_Exited: "rec_trail_name outlist i line st \<noteq> Exited c"
  by (simp add: rec_trail_name_def Let_def not_Exited)

lemma rec_checkpoint_file_not_Exited: "rec_checkpoint_file outlist i line st \<noteq> Exited c"
  by (simp add: rec_checkpoint_file_def Let_def not_Exited split: option.splits)

lemma rec_checkpoint_lag_not_Exited: "rec_checkpoint_lag line sl st \<noteq> Exited c"
  by (simp add: rec_checkpoint_lag_def not_Exited)

lemma detail_step_not_Exited: "detail_step outlist i st \<noteq> Exited c"
  by (simp add: detail_step_def Let_def not_Exited rec_status_not_Exited
      rec_process_id_not_Exited rec_trail_name_not_Exited rec_checkpoint_file_not_Exited
      rec_checkpoint_lag_not_Exited)

lemma summary_step_not_Exited: "summary_step outlist i st \<noteq> Exited c"
  by (simp add: summary_step_def Let_def not_Exited)

lemma detail_pass_not_Exited: "detail_pass outlist st \<noteq> Exited c"
  by (simp add: detail_pass_def not_Exited for_each_not_Exited detail_step_not_Exited)

lemma summary_pass_not_Exited: "summary_pass outlist st \<noteq> Exited c"
  by (simp add: summary_pass_def not_Exited for_each_not_Exited summary_step_not_Exited)

lemma exit_on_exception_cases:
  assumes "\<And>c. r \<noteq> Exited c"
  shows "exit_on_exception r = Exited 1 \<or> (\<exists>x. r = Returned x \<and> exit_on_exception r = Returned x)"
  using assms by (cases r) auto

lemma detail_pass_marker_absent:
  assumes "''==== INFO * SECTION START ===='' \<notin> set outlist
         \<or> ''==== INFO * SECTION END ===='' \<notin> set outlist"
  shows "detail_pass outlist st = Raised ValueError"
proof (cases "''==== INFO * SECTION START ===='' \<in> set outlist")
  case False
  then show ?thesis by (simp add: detail_pass_def index_or_raise_absent)
next
  case True
  then obtain s where "py_index outlist ''==== INFO * SECTION START ===='' = Some s"
    using py_index_None [of outlist "''==== INFO * SECTION START ====''"] by auto
  with assms True show ?thesis
    by (simp add: detail_pass_def index_or_raise_absent index_or_raise_present)
qed

lemma summary_pass_marker_absent:
  assumes "''==== INFO ALL SECTION START ===='' \<notin> set outlist
         \<or> ''==== INFO ALL SECTION END ===='' \<notin> set outlist"
  shows "summary_pass outlist st = Raised ValueError"
proof (cases "''==== INFO ALL SECTION START ===='' \<in> set outlist")
  case False
  then show ?thesis by (simp add: summary_pass_def index_or_raise_absent)
next
  case True
  then obtain s where "py_index outlist ''==== INFO ALL SECTION START ===='' = Some s"
    using py_index_None [of outlist "''==== INFO ALL SECTION START ====''"] by auto
  with assms True show ?thesis
    by (simp add: summary_pass_def index_or_raise_absent index_or_raise_present)
qed

lemma info_section_marker_absent:
  assumes "m \<in> set [''==== INFO * SECTION START ===='', ''==== INFO * SECTION END ===='',
                     ''==== INFO ALL SECTION START ===='', ''==== INFO ALL SECTION END ====''] "
    and "m \<notin> set (ogg_script_outlist self)"
  shows "parse_output_info_section self = Exited 1"
proof (cases "m = ''==== INFO * SECTION START ===='' \<or> m = ''==== INFO * SECTION END ====''")
  case True
  with assms(2)
  have "detail_pass (ogg_script_outlist self) (info_state_init (process_dictionary self))
      = Raised ValueError"
    by (intro detail_pass_marker_absent) auto
  then show ?thesis by (simp add: parse_output_info_section_def)
next
  case False
  with assms have ab: "''==== INFO ALL SECTION START ===='' \<notin> set (ogg_script_outlist self)
         \<or> ''==== INFO ALL SECTION END ===='' \<notin> set (ogg_script_outlist self)"
    by auto
  let ?d = "detail_pass (ogg_script_outlist self) (info_state_init (process_dictionary self))"
  from exit_on_exception_cases [of ?d] detail_pass_not_Exited
  consider "exit_on_exception ?d = Exited 1" | x where "exit_on_exception ?d = Returned x"
    by blast
  then show ?thesis
  proof cases
    case 1
    then show ?thesis by (simp add: parse_output_info_section_def)
  next
    case 2
    with summary_pass_marker_absent [OF ab, of x] show ?thesis
      by (simp add: parse_output_info_section_def)
  qed
qed

text \<open>
  In \<open>report_inverted\<close> both end markers stand before their start markers. The method does
  not fail: both passes are skipped, the process lines are not read, and it returns with
  an empty process table and an empty discovery list.
\<close>

theorem info_window_inverted_counterexample:
  \<open>py_index report_inverted ''==== INFO * SECTION START ===='' = Some 2
   \<and> py_index report_inverted ''==== INFO * SECTION END ===='' = Some 0
   \<and> parse_output_info_section (monitor\<lparr>ogg_script_outlist := report_inverted\<rparr>) =
       Returned (monitor\<lparr>ogg_script_outlist := report_inverted,
                   json_string := ''ogg.process.discovery 1700000000 {"data":[ ]}''\<rparr>)\<close>
  by code_simp

text \<open>
  Claim C3, as amended. For the detail window (\<open>info *\<close>) and the summary window
  (\<open>info all\<close>): when the start or the end marker line is absent, the method ends the run
  with exit status 1. When both are present and the end marker's index is not above the
  start marker's, the pass over that window is skipped without an error and leaves the
  state (the registry included) as it was.
\<close>

theorem info_window_errors:
  "(m \<in> set [''==== INFO * SECTION START ===='', ''==== INFO * SECTION END ===='',
              ''==== INFO ALL SECTION START ===='', ''==== INFO ALL SECTION END ====''] 
      \<and> m \<notin> set (ogg_script_outlist self)
      \<longrightarrow> parse_output_info_section self = Exited 1)
   \<and> (py_index outlist ''==== INFO * SECTION START ===='' = Some s
      \<and> py_index outlist ''==== INFO * SECTION END ===='' = Some e \<and> e \<le> s
      \<longrightarrow> detail_pass outlist st = Returned st)
   \<and> (py_index outlist ''==== INFO ALL SECTION START ===='' = Some s'
      \<and> py_index outlist ''==== INFO ALL SECTION END ===='' = Some e' \<and> e' \<le> s'
      \<longrightarrow> summary_pass outlist st = Returned st)"
  using info_section_marker_absent [of m self]
  by (auto simp: detail_pass_def summary_pass_def index_or_raise_present)

text \<open>A report without the detail end marker, and the inverted report.\<close>

theorem info_window_errors_witness:
  "parse_output_info_section (monitor\<lparr>ogg_script_outlist := report_no_end\<rparr>) = Exited 1
   \<and> detail_pass report_inverted (info_state_init []) = Returned (info_state_init [])
   \<and> summary_pass report_inverted (info_state_init []) = Returned (info_state_init [])"
proof -
  let ?m = "monitor\<lparr>ogg_script_outlist := report_no_end\<rparr>"
  have a: "''==== INFO * SECTION END ===='' \<in> set [''==== INFO * SECTION START ===='',
      ''==== INFO * SECTION END ===='', ''==== INFO ALL SECTION START ===='',
      ''==== INFO ALL SECTION END ====''] "
    by simp
  have b: "''==== INFO * SECTION END ===='' \<notin> set (ogg_script_outlist ?m)"
    by (simp add: report_no_end_def)
  have c: "py_index report_inverted ''==== INFO * SECTION START ===='' = Some 2"
    "py_index report_inverted ''==== INFO * SECTION END ===='' = Some 0"
    "py_index report_inverted ''==== INFO ALL SECTION START ===='' = Some 5"
    "py_index report_inverted ''==== INFO ALL SECTION END ===='' = Some 3"
    by code_simp+
  have d: "(0::nat) \<le> 2" "(3::nat) \<le> 5" by simp_all
  from info_window_errors [of "''==== INFO * SECTION END ====''" ?m report_inverted 2 0
      "info_state_init []" 5 3] a b c d
  show ?thesis by blast
qed

section \<open>The static settings\<close>















section \<open>What the detail pass reads\<close>

text \<open>
  A line whose first token is neither \<open>EXTRACT\<close> nor \<open>REPLICAT\<close> changes nothing: every
  recognizer stands under the test of the first token.
\<close>

lemma detail_step_other_line:
  assumes "nth_or_raise outlist i = Returned line"
    and "tokens line = t0 # ts"
    and "t0 \<noteq> ''EXTRACT''" and "t0 \<noteq> ''REPLICAT''"
  shows "detail_step outlist i st = Returned st"
  using assms by (simp add: detail_step_def nth_or_raise_def)

text \<open>
  Applied to the property lines themselves, the recognizers give the values the lines
  show: they are written for those lines.
\<close>

lemma rec_checkpoint_lag_on_its_line:
  "rec_checkpoint_lag ''Checkpoint Lag       00:01:30 (updated 00:00:05 ago)''
       (tokens ''Checkpoint Lag       00:01:30 (updated 00:00:05 ago)'')
       ((info_state_init [])\<lparr>process_name := ''EXT1''\<rparr>) =
     Returned ((info_state_init [])\<lparr>process_name := ''EXT1'',
       checkpoint_dict := [(''EXT1'', ''00:01:30'')]\<rparr>)"
  by code_simp

lemma rec_checkpoint_file_on_its_line:
  "rec_checkpoint_file report_one_replicat 2 ''Log Read Checkpoint File ./dirdat/rt000042''
       ((info_state_init [])\<lparr>process_type := ''REPLICAT''\<rparr>) =
     Returned ((info_state_init [])\<lparr>process_type := ''REPLICAT'', process_trail := ''./dirdat/rt'',
       process_trail_type := ''LOCALTRAIL'', process_seq := ''42'', process_rba := ''1024''\<rparr>)"
  by code_simp

text \<open>
  Claim C1, on the code. In \<open>report_one_extract\<close> the opening line of EXT1 is followed by
  its \<open>Checkpoint Lag\<close> line and its \<open>Process ID\<close> line. The detail pass records the status
  of the opening line only: no checkpoint lag is recorded and the process id stays at its
  initial \<open>0\<close>, not 4242.
\<close>

theorem detail_pass_skips_property_lines:
  "detail_pass report_one_extract (info_state_init []) =
     Returned \<lparr>process_name = ''EXT1'', process_type = ''EXTRACT'', process_list = [''EXT1''],
       status_dict = [(''EXT1'', ''RUNNING'')], checkpoint_dict = [],
       process_dict = [(''EXT1'', ['''', '''', ''0'', ''0'', ''0'', ''0''])],
       process_trail = '''', process_trail_type = '''', process_seq = ''0'',
       process_rba = ''0'', process_scn = ''0'', process_pid = ''0''\<rparr>"
  by code_simp

text \<open>
  Claim C9, on the code. In \<open>report_one_replicat\<close> the opening line of REP1 is followed by
  the checkpoint file line ending in \<open>./dirdat/rt000042\<close> and a line whose fourth token
  is 1024. The registry entry of REP1 has an empty trail name and trail type, sequence
  \<open>0\<close> and relative byte address \<open>0\<close>.
\<close>

theorem replicat_checkpoint_file_not_read:
  "detail_pass report_one_replicat (info_state_init []) =
     Returned \<lparr>process_name = ''REP1'', process_type = ''REPLICAT'', process_list = [''REP1''],
       status_dict = [(''REP1'', ''RUNNING'')], checkpoint_dict = [],
       process_dict = [(''REP1'', ['''', '''', ''0'', ''0'', ''0'', ''0''])],
       process_trail = '''', process_trail_type = '''', process_seq = ''0'',
       process_rba = ''0'', process_scn = ''0'', process_pid = ''0''\<rparr>"
  by code_simp

section \<open>The shape of the lag lines\<close>

text \<open>
  Claim C2, on the code. In \<open>report_getlag\<close> EXT1 answers with \<open>Last record lag\<close> and EXT2
  with \<open>No records yet processed\<close>. The line of EXT1 has a space between \<open>ogg.process\<close> and
  the bracket; the line of EXT2 has none.
\<close>

theorem last_record_lag_line_shape:
  \<open>parse_output_getlag_section (monitor\<lparr>ogg_script_outlist := report_getlag\<rparr>) =
     Returned (monitor\<lparr>ogg_script_outlist := report_getlag,
       ogg_zabbix_list := [''ogg.process [EXT1,lag] 1700000000 "5"'',
                           ''ogg.process[EXT2,lag] 1700000000 "0"'']\<rparr>)\<close>
  by code_simp

section \<open>The PID list\<close>

text \<open>
  Claim C4, on the code. The summary pass gives the daemon ADMINSRVR of \<open>report_info\<close> the
  process id \<open>-1\<close>; the PID list built from the resulting table is \<open>-1\<close>. The same holds
  for a table with that one record.
\<close>

theorem pid_string_keeps_minus_one:
  "and_then (parse_output_info_section (monitor\<lparr>ogg_script_outlist := report_info\<rparr>))
     processes_memory_pid_string = Returned ''-1''
   \<and> processes_memory_pid_string
       (monitor\<lparr>process_dictionary :=
          [(''ADMINSRVR'', [''NONE'', ''NONE'', ''0'', ''0'', ''0'', ''-1''])]\<rparr>)
     = Returned ''-1''"
  by code_simp

end
